theory Spec2Isabelle
  imports Complex_Main
begin

section \<open>Numeric conventions\<close>

text \<open>
  The two services compute on Python floats. They are embedded as exact real numbers:
  every arithmetic operation of the source is the corresponding operation on
  \<^typ>\<open>real\<close>, and the rounding error of IEEE doubles is outside the model.
  What Python does beyond arithmetic is kept: a division by zero raises
  \<open>ZeroDivisionError\<close>, \<open>min\<close> of an empty list raises \<open>ValueError\<close>, a missing
  dictionary key read with \<open>d[k]\<close> raises \<open>KeyError\<close>, subscripting \<open>None\<close> raises
  \<open>TypeError\<close>, reading a local variable never assigned raises \<open>UnboundLocalError\<close>.
\<close>

datatype py_error = ZeroDivisionError | ValueError | KeyError | TypeError | UnboundLocalError

text \<open>Sequencing of a computation that may raise.\<close>

definition bind_err :: "py_error + 'a \<Rightarrow> ('a \<Rightarrow> py_error + 'b) \<Rightarrow> py_error + 'b" where
  "bind_err m f = (case m of Inl e \<Rightarrow> Inl e | Inr x \<Rightarrow> f x)"

text \<open>Python's \<open>/\<close> on numbers.\<close>

definition py_div :: "real \<Rightarrow> real \<Rightarrow> py_error + real" where
  "py_div a b = (if b = 0 then Inl ZeroDivisionError else Inr (a / b))"

text \<open>
  Python's \<open>round(x, d)\<close> on a float: the nearest multiple of \<open>10^-d\<close>, a tie going to
  the even multiple.
\<close>

definition round_half_even :: "real \<Rightarrow> int" where
  "round_half_even r =
     (let f = \<lfloor>r\<rfloor>; d = r - of_int f
      in if d < 1 / 2 then f
         else if 1 / 2 < d then f + 1
         else if even f then f else f + 1)"

definition py_round :: "real \<Rightarrow> nat \<Rightarrow> real" where
  "py_round x d = of_int (round_half_even (x * 10 ^ d)) / 10 ^ d"

section \<open>Fractionalization pricing service\<close>

definition HIGH_RATED :: "string list" where
  "HIGH_RATED = [''AAA'', ''AA+'', ''AA'', ''AA-'', ''A+'', ''A'', ''A-'', ''BBB+'', ''BBB'']"

definition LOW_RATED :: "string list" where
  "LOW_RATED = [''BBB-'', ''BB+'', ''BB'', ''BB-'', ''B+'', ''B'', ''B-'', ''CCC'', ''CC'', ''C'', ''D'']"

subsection \<open>pv_price\<close>

text \<open>
  The value \<open>pv_price\<close> returns when it returns: the coupons \<open>c / (1 + y) ** t\<close> for
  \<open>t\<close> in \<open>range(1, n + 1)\<close>, plus the discounted face value; for \<open>n = 0\<close> the face
  value plus one coupon.
\<close>

definition pv_value :: "real \<Rightarrow> real \<Rightarrow> real \<Rightarrow> nat \<Rightarrow> real" where
  "pv_value face_value c y n =
     (if n = 0 then face_value + c
      else sum_list (map (\<lambda>t. c / (1 + y) ^ t) [1 ..< n + 1]) + face_value / (1 + y) ^ n)"

text \<open>
  \<open>n = max(int(math.ceil(years)), 0)\<close>. With \<open>n > 0\<close> and \<open>1 + y = 0\<close> the first
  division raises.
\<close>

definition pv_price :: "real \<Rightarrow> real \<Rightarrow> real \<Rightarrow> real \<Rightarrow> py_error + real" where
  "pv_price face_value coupon_rate yield_rate years =
     (let c = face_value * coupon_rate;
          y = yield_rate;
          n = nat (max \<lceil>years\<rceil> 0)
      in if n = 0 then Inr (face_value + c)
         else if (1 + y) = 0 then Inl ZeroDivisionError
         else Inr (pv_value face_value c y n))"

subsection \<open>implied_yield_for_price\<close>

text \<open>
  The loop \<open>for _ in range(max_iter)\<close>, by recursion on the iterations left; the
  arguments after the counter are the loop variables \<open>a\<close>, \<open>b\<close>, \<open>fa\<close>, \<open>fb\<close>.
\<close>

fun bisect :: "real \<Rightarrow> real \<Rightarrow> real \<Rightarrow> real \<Rightarrow> real \<Rightarrow> nat \<Rightarrow> real \<Rightarrow> real \<Rightarrow> real \<Rightarrow> real
                 \<Rightarrow> py_error + real" where
  "bisect face_value coupon_rate price years eps 0 a b fa fb = Inr (0.5 * (a + b))"
| "bisect face_value coupon_rate price years eps (Suc k) a b fa fb =
     (let m = 0.5 * (a + b)
      in case pv_price face_value coupon_rate m years of
           Inl e \<Rightarrow> Inl e
         | Inr pm \<Rightarrow>
             (let fm = pm - price
              in if \<bar>fm\<bar> < eps then Inr m
                 else if fa * fm \<le> 0
                   then bisect face_value coupon_rate price years eps k a m fa fm
                   else bisect face_value coupon_rate price years eps k m b fm fb))"

text \<open>The result \<open>None\<close> of the source is \<open>Inr None\<close>; a raised exception is \<open>Inl\<close>.\<close>

definition implied_yield_for_price ::
  "real \<Rightarrow> real \<Rightarrow> real \<Rightarrow> real \<Rightarrow> real \<Rightarrow> real \<Rightarrow> real \<Rightarrow> nat \<Rightarrow> py_error + real option" where
  "implied_yield_for_price face_value coupon_rate price years lo hi eps max_iter =
     bind_err (pv_price face_value coupon_rate lo years) (\<lambda>pa.
     bind_err (pv_price face_value coupon_rate hi years) (\<lambda>pb.
       (let fa = pa - price; fb = pb - price
        in if 0 < fa * fb
           then bind_err (pv_price face_value coupon_rate 10 years) (\<lambda>pb'.
                  (let fb' = pb' - price
                   in if 0 < fa * fb' then Inr None
                      else map_sum id Some
                             (bisect face_value coupon_rate price years eps max_iter lo 10 fa fb')))
           else map_sum id Some
                  (bisect face_value coupon_rate price years eps max_iter lo hi fa fb))))"

text \<open>The default arguments \<open>lo=1e-8, hi=1.0, eps=1e-8, max_iter=200\<close>.\<close>

definition implied_yield_default :: "real \<Rightarrow> real \<Rightarrow> real \<Rightarrow> real \<Rightarrow> py_error + real option" where
  "implied_yield_default face_value coupon_rate price years =
     implied_yield_for_price face_value coupon_rate price years (1 / 10 ^ 8) 1 (1 / 10 ^ 8) 200"

subsection \<open>Describing what the solver returns\<close>

text \<open>
  The function whose root the solver looks for, \<open>f(y) = pv_price(y) - price\<close>, where
  \<open>pv_price\<close> returns.
\<close>

definition price_gap :: "real \<Rightarrow> real \<Rightarrow> real \<Rightarrow> real \<Rightarrow> real \<Rightarrow> real" where
  "price_gap face_value coupon_rate price years y =
     pv_value face_value (face_value * coupon_rate) y (nat (max \<lceil>years\<rceil> 0)) - price"

text \<open>Both values strictly positive, or both strictly negative.\<close>

definition same_strict_sign :: "real \<Rightarrow> real \<Rightarrow> bool" where
  "same_strict_sign x y \<longleftrightarrow> (0 < x \<and> 0 < y) \<or> (x < 0 \<and> y < 0)"

text \<open>
  The update of \<open>(a, b, fa, fb)\<close> one pass of the loop body makes when it does not
  return, and the bracket after \<open>k\<close> such passes.
\<close>

fun bracket_step :: "(real \<Rightarrow> real) \<Rightarrow> real \<times> real \<times> real \<times> real \<Rightarrow> real \<times> real \<times> real \<times> real" where
  "bracket_step f (a, b, fa, fb) =
     (let m = 0.5 * (a + b); fm = f m
      in if fa * fm \<le> 0 then (a, m, fa, fm) else (m, b, fm, fb))"

fun bracket_after :: "(real \<Rightarrow> real) \<Rightarrow> nat \<Rightarrow> real \<times> real \<times> real \<times> real \<Rightarrow> real \<times> real \<times> real \<times> real" where
  "bracket_after f 0 st = st"
| "bracket_after f (Suc k) st = bracket_after f k (bracket_step f st)"

fun bracket_mid :: "real \<times> real \<times> real \<times> real \<Rightarrow> real" where
  "bracket_mid (a, b, fa, fb) = 0.5 * (a + b)"

text \<open>
  A value \<open>r\<close> is an outcome of the loop started at bracket \<open>st\<close>: for some
  \<open>k \<le> max_iter\<close> it is the midpoint of the bracket after \<open>k\<close> passes, no earlier
  midpoint met the tolerance, and either \<open>k < max_iter\<close> and \<open>r\<close> meets the tolerance
  (early return) or \<open>k = max_iter\<close> (the final midpoint).
\<close>

definition bisect_outcome :: "(real \<Rightarrow> real) \<Rightarrow> real \<Rightarrow> nat \<Rightarrow> real \<times> real \<times> real \<times> real \<Rightarrow> real \<Rightarrow> bool" where
  "bisect_outcome f eps max_iter st r \<longleftrightarrow>
     (\<exists>k \<le> max_iter.
        r = bracket_mid (bracket_after f k st)
        \<and> (\<forall>j < k. \<not> \<bar>f (bracket_mid (bracket_after f j st))\<bar> < eps)
        \<and> (k < max_iter \<longrightarrow> \<bar>f r\<bar> < eps))"

subsection \<open>calculate_fraction_price\<close>

text \<open>The local variables every rating branch assigns.\<close>

record pricing_locals =
  v_fraction_price :: real
  v_seller_total :: real
  v_buyer_cost :: real
  v_buyer_yield :: "real option"
  v_Y :: "real option"

record projection =
  absolute_interest :: real
  return_pct_of_cost :: real

record pricing_result =
  fraction_price :: real
  seller_total :: real
  buyer_expected_yield_pct :: "real option"
  proj_1_year :: projection
  proj_3_year :: projection
  proj_5_year :: projection
  pricing_mode :: string
  used_yield :: "real option"

definition target_yield_for_time :: "real \<Rightarrow> real \<Rightarrow> real" where
  "target_yield_for_time coupon_rate t =
     (let delta = 0.01; t_capped = min (max t 0) 5
      in coupon_rate - delta * (t_capped / 5))"

text \<open>
  The tail shared by four branches: \<open>fraction_price = round(seller_total / fractions, 2)\<close>,
  \<open>buyer_cost = fraction_price * fractions\<close>, then the simple current yield
  \<open>(coupon_rate * face_value / buyer_cost) * 100\<close>.
\<close>

definition current_yield_locals ::
  "real \<Rightarrow> real \<Rightarrow> real \<Rightarrow> real \<Rightarrow> real option \<Rightarrow> py_error + pricing_locals" where
  "current_yield_locals face_value coupon_rate fractions st Y =
     bind_err (py_div st fractions) (\<lambda>q.
       (let fp = py_round q 2; buyer_cost = fp * fractions
        in bind_err (py_div (coupon_rate * face_value) buyer_cost) (\<lambda>r.
             Inr \<lparr>v_fraction_price = fp, v_seller_total = st, v_buyer_cost = buyer_cost,
                  v_buyer_yield = Some (r * 100), v_Y = Y\<rparr>)))"

text \<open>The \<open>if rating in HIGH_RATED ... elif rating in LOW_RATED ... else\<close> chain.\<close>

definition rating_branch ::
  "real \<Rightarrow> real \<Rightarrow> string \<Rightarrow> real \<Rightarrow> real \<Rightarrow> bool \<Rightarrow> bool \<Rightarrow> py_error + pricing_locals" where
  "rating_branch face_value coupon_rate rating maturity_years fractions
       use_pv_forward force_seller_target =
     bind_err (py_div face_value fractions) (\<lambda>fv_per_unit.
       if rating \<in> set HIGH_RATED then
         (if use_pv_forward \<and> \<not> force_seller_target then
            (let Y = target_yield_for_time coupon_rate maturity_years
             in bind_err (pv_price face_value coupon_rate Y maturity_years) (\<lambda>st.
                  current_yield_locals face_value coupon_rate fractions st (Some Y)))
          else if force_seller_target then
            (let base_recovery = face_value * (1 + coupon_rate);
                 time_scale = 0.95 + 0.07 * (min (max maturity_years 0) 5 / 5);
                 st = base_recovery * time_scale
             in bind_err (py_div st fractions) (\<lambda>q.
                  (let fp = py_round q 2; buyer_cost = fp * fractions
                   in bind_err (implied_yield_default face_value coupon_rate st maturity_years)
                        (\<lambda>implied.
                          Inr \<lparr>v_fraction_price = fp, v_seller_total = st,
                               v_buyer_cost = buyer_cost,
                               v_buyer_yield = map_option (\<lambda>i. i * 100) implied,
                               v_Y = implied\<rparr>))))
          else
            current_yield_locals face_value coupon_rate fractions
              (face_value * (1 + coupon_rate) * 0.98) None)
       else if rating \<in> set LOW_RATED then
         (let seller_effective_rate = coupon_rate * 0.75
          in current_yield_locals face_value coupon_rate fractions
               (face_value * (1 + seller_effective_rate)) None)
       else
         (let fp = fv_per_unit; st = fp * fractions
          in Inr \<lparr>v_fraction_price = fp, v_seller_total = st, v_buyer_cost = st,
                  v_buyer_yield = Some (coupon_rate * 100), v_Y = None\<rparr>))"

text \<open>
  The nested \<open>proj\<close>; \<open>if buyer_cost else 0\<close> guards the division.
\<close>

definition proj :: "real \<Rightarrow> real \<Rightarrow> real \<Rightarrow> real \<Rightarrow> real \<Rightarrow> projection" where
  "proj face_value coupon_rate maturity_years buyer_cost years =
     (let held_years = min years (max maturity_years 0);
          interest_amt = coupon_rate * face_value * held_years
      in \<lparr>absolute_interest = py_round interest_amt 2,
          return_pct_of_cost =
            (if buyer_cost \<noteq> 0 then py_round ((interest_amt / buyer_cost) * 100) 2 else 0)\<rparr>)"

text \<open>
  \<open>x if v else None\<close> on a value that is \<open>None\<close> or a float: \<open>None\<close> and \<open>0.0\<close> are
  both falsy.
\<close>

definition round_if_truthy :: "real option \<Rightarrow> nat \<Rightarrow> real option" where
  "round_if_truthy v d =
     (case v of None \<Rightarrow> None | Some x \<Rightarrow> if x \<noteq> 0 then Some (py_round x d) else None)"

definition mode_label :: "bool \<Rightarrow> bool \<Rightarrow> string" where
  "mode_label use_pv_forward force_seller_target =
     (if use_pv_forward \<and> \<not> force_seller_target then ''pv_forward''
      else (if force_seller_target then ''force_seller'' else ''fallback''))"

text \<open>\<open>purchase_amount\<close> is a parameter the source never reads.\<close>

definition calculate_fraction_price ::
  "real \<Rightarrow> real \<Rightarrow> string \<Rightarrow> real \<Rightarrow> real \<Rightarrow> real \<Rightarrow> bool \<Rightarrow> bool \<Rightarrow> py_error + pricing_result" where
  "calculate_fraction_price face_value coupon_rate rating purchase_amount maturity_years
       fractions use_pv_forward force_seller_target =
     bind_err (rating_branch face_value coupon_rate rating maturity_years fractions
                 use_pv_forward force_seller_target) (\<lambda>v.
       Inr \<lparr>fraction_price = v_fraction_price v,
            seller_total = py_round (v_seller_total v) 2,
            buyer_expected_yield_pct = round_if_truthy (v_buyer_yield v) 2,
            proj_1_year = proj face_value coupon_rate maturity_years (v_buyer_cost v) 1,
            proj_3_year = proj face_value coupon_rate maturity_years (v_buyer_cost v) 3,
            proj_5_year = proj face_value coupon_rate maturity_years (v_buyer_cost v) 5,
            pricing_mode = mode_label use_pv_forward force_seller_target,
            used_yield = round_if_truthy (v_Y v) 6\<rparr>)"


section \<open>Recommendations service\<close>

text \<open>
  A bond of the universe is a dictionary read with \<open>b["bond_id"]\<close>, \<open>b["name"]\<close>,
  \<open>b["credit"]\<close>, \<open>b["yield"]\<close>, \<open>b["duration"]\<close> and \<open>b.get("liquidity", 0.5)\<close>:
  the first five keys are taken as present, the last is optional.
\<close>

record bond =
  bond_id :: string
  b_name :: string
  credit :: string
  yield :: real
  duration :: real
  liquidity :: "real option"

definition BOND_UNIVERSE :: "bond list" where
  "BOND_UNIVERSE =
     [\<lparr>bond_id = ''B_SAFE_1'', b_name = ''Gilt 3Y'', credit = ''AAA'', yield = 0.055,
       duration = 3, liquidity = Some 0.95\<rparr>,
      \<lparr>bond_id = ''B_SAFE_2'', b_name = ''InvGrade Corp 3Y'', credit = ''AA'', yield = 0.06,
       duration = 3, liquidity = Some 0.9\<rparr>,
      \<lparr>bond_id = ''B_MED_1'', b_name = ''Corp BBB 5Y'', credit = ''BBB'', yield = 0.075,
       duration = 5, liquidity = Some 0.7\<rparr>,
      \<lparr>bond_id = ''B_HY_1'', b_name = ''HighYield 4Y'', credit = ''BB'', yield = 0.10,
       duration = 4, liquidity = Some 0.5\<rparr>,
      \<lparr>bond_id = ''B_SHORT_SAFE'', b_name = ''T-Bill 1Y'', credit = ''AAA'', yield = 0.045,
       duration = 1, liquidity = Some 0.98\<rparr>]"

definition CREDIT_RISK_MAP :: "string \<rightharpoonup> real" where
  "CREDIT_RISK_MAP =
     map_of [(''AAA'', 0.0), (''AA'', 0.1), (''A'', 0.25), (''BBB'', 0.5), (''BB'', 0.8),
             (''B'', 0.95)]"

definition RISK_MAP :: "string \<rightharpoonup> real" where
  "RISK_MAP = map_of [(''high'', 1.0), (''medium-high'', 0.75), (''medium'', 0.5), (''low'', 0.2)]"

text \<open>
  A portfolio asset is a dictionary whose keys may be absent: every field is optional,
  \<open>None\<close> standing for a missing key.
\<close>

record asset =
  asset_id :: "string option"
  asset_type :: "string option"
  a_name :: "string option"
  risk_label :: "string option"
  market_value :: "real option"
  expected_return :: "real option"
  cagr :: "real option"
  fd_rate :: "real option"

text \<open>\<open>float(a.get(key, 0.0))\<close> on a numeric field.\<close>

definition get_float :: "real option \<Rightarrow> real" where
  "get_float v = (case v of None \<Rightarrow> 0 | Some x \<Rightarrow> x)"

definition demo_portfolio :: "asset list" where
  "demo_portfolio =
     [\<lparr>asset_id = Some ''S_HIGH'', asset_type = Some ''stock'', a_name = Some ''AlphaTech'',
       risk_label = Some ''high'', market_value = Some 40000, expected_return = Some 0.20,
       cagr = None, fd_rate = None\<rparr>,
      \<lparr>asset_id = Some ''S_MED'', asset_type = Some ''stock'', a_name = Some ''BetaIndustries'',
       risk_label = Some ''medium'', market_value = Some 30000, expected_return = Some 0.12,
       cagr = None, fd_rate = None\<rparr>,
      \<lparr>asset_id = Some ''S_LOW'', asset_type = Some ''stock'', a_name = Some ''GammaStable'',
       risk_label = Some ''low'', market_value = Some 15000, expected_return = Some 0.06,
       cagr = None, fd_rate = None\<rparr>,
      \<lparr>asset_id = Some ''MF_GOOD'', asset_type = Some ''mutual_fund'',
       a_name = Some ''GrowthPlus MF'', risk_label = Some ''medium'',
       market_value = Some 10000, expected_return = None, cagr = Some 0.15, fd_rate = None\<rparr>,
      \<lparr>asset_id = Some ''MF_LOW'', asset_type = Some ''mutual_fund'',
       a_name = Some ''ValueCore MF'', risk_label = Some ''medium-high'',
       market_value = Some 5000, expected_return = None, cagr = Some 0.03, fd_rate = None\<rparr>,
      \<lparr>asset_id = Some ''FD_1'', asset_type = Some ''bank_fd'',
       a_name = Some ''BankFD (7% p.a.)'', risk_label = Some ''low'',
       market_value = Some 20000, expected_return = None, cagr = None,
       fd_rate = Some 0.07\<rparr>]"

subsection \<open>get_asset_risk_score and compute_portfolio_risk\<close>

definition get_asset_risk_score :: "asset \<Rightarrow> real" where
  "get_asset_risk_score a =
     (let base = (case risk_label a of
                    None \<Rightarrow> 0.5
                  | Some l \<Rightarrow> (case RISK_MAP l of None \<Rightarrow> 0.5 | Some v \<Rightarrow> v));
          base = (if asset_type a = Some ''stock'' then min 1.0 (base + 0.1) else base);
          base = (if asset_type a = Some ''bank_fd'' then 0.05 else base)
      in base)"

record breakdown_entry =
  e_asset_id :: "string option"
  e_type :: "string option"
  e_market_value :: real
  alloc_pct :: real
  risk_score_raw :: real
  risk_contribution :: real

text \<open>
  The loop over the assets, carrying \<open>breakdown\<close> and \<open>weighted_sum\<close>.
\<close>

fun risk_loop :: "real \<Rightarrow> asset list \<Rightarrow> breakdown_entry list \<Rightarrow> real
                    \<Rightarrow> breakdown_entry list \<times> real" where
  "risk_loop total_value [] breakdown weighted_sum = (breakdown, weighted_sum)"
| "risk_loop total_value (a # rest) breakdown weighted_sum =
     (let mv = get_float (market_value a);
          alloc = mv / total_value;
          score = get_asset_risk_score a;
          contrib = alloc * score
      in risk_loop total_value rest
           (breakdown @ [\<lparr>e_asset_id = asset_id a, e_type = asset_type a, e_market_value = mv,
                           alloc_pct = alloc, risk_score_raw = score,
                           risk_contribution = contrib\<rparr>])
           (weighted_sum + contrib))"

text \<open>
  \<open>sum([...]) or 1.0\<close>: a sum equal to zero is replaced by \<open>1.0\<close>, so the division in
  the loop never raises. The result is \<open>(overall_score, breakdown, total_value)\<close>.
\<close>

definition compute_portfolio_risk :: "asset list \<Rightarrow> real \<times> breakdown_entry list \<times> real" where
  "compute_portfolio_risk assets =
     (let s = sum_list (map (\<lambda>a. get_float (market_value a)) assets);
          total_value = (if s \<noteq> 0 then s else 1.0);
          (breakdown, weighted_sum) = risk_loop total_value assets [] 0.0
      in (weighted_sum * 100.0, breakdown, total_value))"

subsection \<open>select_bond_candidate\<close>

text \<open>The utility computed in the loop body for one bond of the filtered list.\<close>

definition utility :: "bool \<Rightarrow> real \<Rightarrow> real \<Rightarrow> real \<Rightarrow> bond \<Rightarrow> real" where
  "utility prefer_yield target_duration y_min y_max b =
     (let norm_yield = (yield b - y_min) / ((y_max - y_min) + 1 / 10 ^ 9);
          duration_penalty = \<bar>duration b - target_duration\<bar> / 10.0;
          (w_yield, w_credit, w_dur, w_liq) =
             (if prefer_yield then (0.5, 0.4, 0.05, 0.05) else (0.35, 0.45, 0.1, 0.1));
          credit_risk = (case CREDIT_RISK_MAP (credit b) of None \<Rightarrow> 0.6 | Some r \<Rightarrow> r)
      in w_yield * norm_yield - w_credit * credit_risk - w_dur * duration_penalty
         + w_liq * (case liquidity b of None \<Rightarrow> 0.5 | Some l \<Rightarrow> l))"

text \<open>The credit filter and its fallback to the whole universe.\<close>

definition credit_filtered :: "bond list \<Rightarrow> string \<Rightarrow> bond list" where
  "credit_filtered bond_universe desired_safety =
     (let df = (if desired_safety = ''safe''
                  then filter (\<lambda>b. credit b \<in> {''AAA'', ''AA'', ''A''}) bond_universe
                else if desired_safety = ''medium''
                  then filter (\<lambda>b. credit b \<in> {''AAA'', ''AA'', ''A'', ''BBB''}) bond_universe
                else bond_universe)
      in if df = [] then bond_universe else df)"

text \<open>
  \<open>min(yds)\<close> raises \<open>ValueError\<close> on an empty list. \<open>sort(key=..., reverse=True)\<close> is
  a stable sort in descending order of the key: elements with equal keys keep their
  original order; it is the stable ascending sort on the negated key.
\<close>

definition select_bond_candidate :: "bond list \<Rightarrow> string \<Rightarrow> bool \<Rightarrow> real \<Rightarrow> py_error + bond" where
  "select_bond_candidate bond_universe desired_safety prefer_yield target_duration =
     (let df = credit_filtered bond_universe desired_safety;
          yds = map yield df
      in if yds = [] then Inl ValueError
         else
           (let y_min = Min (set yds); y_max = Max (set yds);
                candidate_scores =
                  map (\<lambda>b. (utility prefer_yield target_duration y_min y_max b, b)) df;
                sorted_scores = sort_key (\<lambda>x. - fst x) candidate_scores
            in Inr (snd (hd sorted_scores))))"

subsection \<open>build_recommendations\<close>

text \<open>
  The body of the first loop for one asset: the entries \<open>(asset_id, value, reason)\<close> it
  appends to \<open>to_replace\<close>. \<open>a["asset_id"]\<close> raises \<open>KeyError\<close> when the key is absent.
\<close>

definition require_id :: "asset \<Rightarrow> py_error + string" where
  "require_id a = (case asset_id a of None \<Rightarrow> Inl KeyError | Some i \<Rightarrow> Inr i)"

definition asset_triggers :: "asset \<Rightarrow> bond list \<Rightarrow> py_error + (string \<times> real \<times> string) list" where
  "asset_triggers a bond_universe =
     (let t = asset_type a
      in bind_err
           (if t = Some ''stock'' \<and> risk_label a \<in> {Some ''high'', Some ''medium-high''}
            then bind_err (require_id a) (\<lambda>i.
                   Inr [(i, get_float (market_value a), ''stock_high'')])
            else Inr []) (\<lambda>e1.
         bind_err
           (if t = Some ''mutual_fund'' \<and> get_float (cagr a) < 0.06
            then bind_err (require_id a) (\<lambda>i.
                   Inr [(i, get_float (market_value a), ''mf_lowcagr'')])
            else Inr []) (\<lambda>e2.
         bind_err
           (if t = Some ''bank_fd''
            then (let fd = get_float (fd_rate a);
                      safe_bonds = filter (\<lambda>b. credit b \<in> {''AAA'', ''AA''}) bond_universe;
                      better = filter (\<lambda>b. fd \<le> yield b) safe_bonds
                  in if better \<noteq> []
                     then bind_err (require_id a) (\<lambda>i.
                            Inr [(i, get_float (market_value a), ''fd_replace'')])
                     else bind_err (require_id a) (\<lambda>i.
                            Inr [(i, get_float (market_value a), ''fd_suggest_ladder'')]))
            else Inr []) (\<lambda>e3.
         Inr (e1 @ e2 @ e3)))))"

fun identify_candidates :: "asset list \<Rightarrow> bond list \<Rightarrow> py_error + (string \<times> real \<times> string) list" where
  "identify_candidates [] bond_universe = Inr []"
| "identify_candidates (a # rest) bond_universe =
     bind_err (asset_triggers a bond_universe) (\<lambda>es.
       bind_err (identify_candidates rest bond_universe) (\<lambda>more. Inr (es @ more)))"

text \<open>
  \<open>next((x for x in assets if x["asset_id"] == asset_id), None)\<close>: the first asset with
  that id; an asset without the key met before it raises \<open>KeyError\<close>.
\<close>

fun find_asset :: "asset list \<Rightarrow> string \<Rightarrow> py_error + asset option" where
  "find_asset [] i = Inr None"
| "find_asset (x # rest) i =
     (case asset_id x of
        None \<Rightarrow> Inl KeyError
      | Some j \<Rightarrow> if j = i then Inr (Some x) else find_asset rest i)"

text \<open>
  A recommendation. The field \<open>bond_yield\<close> is the bond's yield, or for the ladder the
  text \<open>f"{short['yield']:.3f} & {safe['yield']:.3f}"\<close>, kept as the two yields
  rounded to 3 decimals.
\<close>

datatype yield_field = YieldNumber real | YieldPair real real

record recommendation =
  r_asset_id :: string
  r_asset_name :: "string option"
  replace_value :: real
  reason :: string
  recommended_bond :: string
  r_bond_name :: string
  bond_yield :: yield_field
  bond_credit :: string

definition single_rec :: "string \<Rightarrow> asset \<Rightarrow> real \<Rightarrow> string \<Rightarrow> bond \<Rightarrow> recommendation" where
  "single_rec i a v rsn b =
     \<lparr>r_asset_id = i, r_asset_name = a_name a, replace_value = v, reason = rsn,
      recommended_bond = bond_id b, r_bond_name = b_name b,
      bond_yield = YieldNumber (yield b), bond_credit = credit b\<rparr>"

text \<open>
  The body of the second loop for one entry of \<open>to_replace\<close>: the recommendations it
  appends (none after \<open>continue\<close>). In the ladder branch \<open>safe\<close> is selected before
  \<open>short['bond_id']\<close> is read, which raises \<open>TypeError\<close> when no bond is named
  \<open>B_SHORT_SAFE\<close>. A reason outside the four leaves \<open>bond\<close> unbound; the first loop
  produces no such reason.
\<close>

definition recommend_one ::
  "asset list \<Rightarrow> bond list \<Rightarrow> string \<times> real \<times> string \<Rightarrow> py_error + recommendation list" where
  "recommend_one assets bond_universe entry =
     (case entry of (i, v, rsn) \<Rightarrow>
        bind_err (find_asset assets i) (\<lambda>found.
          case found of
            None \<Rightarrow> Inr []
          | Some a \<Rightarrow>
              if rsn = ''stock_high'' then
                bind_err (select_bond_candidate bond_universe ''high_yield'' True 3.0) (\<lambda>b.
                  Inr [single_rec i a v rsn b])
              else if rsn = ''mf_lowcagr'' then
                bind_err (select_bond_candidate bond_universe ''medium'' False 3.0) (\<lambda>b.
                  Inr [single_rec i a v rsn b])
              else if rsn = ''fd_replace'' then
                bind_err (select_bond_candidate bond_universe ''safe'' True 3.0) (\<lambda>b.
                  Inr [single_rec i a v rsn b])
              else if rsn = ''fd_suggest_ladder'' then
                (let short = find (\<lambda>b. bond_id b = ''B_SHORT_SAFE'') bond_universe
                 in bind_err (select_bond_candidate bond_universe ''safe'' False 3.0) (\<lambda>safe.
                      case short of
                        None \<Rightarrow> Inl TypeError
                      | Some sh \<Rightarrow>
                          Inr [\<lparr>r_asset_id = i, r_asset_name = a_name a, replace_value = v,
                                reason = rsn,
                                recommended_bond =
                                  bond_id sh @ '' (50%) + '' @ bond_id safe @ '' (50%)'',
                                r_bond_name = b_name sh @ '' + '' @ b_name safe,
                                bond_yield =
                                  YieldPair (py_round (yield sh) 3) (py_round (yield safe) 3),
                                bond_credit = credit sh @ '' & '' @ credit safe\<rparr>]))
              else Inl UnboundLocalError))"

fun recommend_all ::
  "asset list \<Rightarrow> bond list \<Rightarrow> (string \<times> real \<times> string) list \<Rightarrow> py_error + recommendation list" where
  "recommend_all assets bond_universe [] = Inr []"
| "recommend_all assets bond_universe (entry # rest) =
     bind_err (recommend_one assets bond_universe entry) (\<lambda>rs.
       bind_err (recommend_all assets bond_universe rest) (\<lambda>more. Inr (rs @ more)))"

definition build_recommendations :: "asset list \<Rightarrow> bond list \<Rightarrow> py_error + recommendation list" where
  "build_recommendations assets bond_universe =
     bind_err (identify_candidates assets bond_universe) (\<lambda>to_replace.
       recommend_all assets bond_universe to_replace)"

subsection \<open>Describing the results of the recommendations service\<close>

text \<open>
  The breakdown entry that the loop body of \<open>compute_portfolio_risk\<close> appends for one
  asset, given \<open>total_value\<close>.
\<close>

definition entry_of :: "real \<Rightarrow> asset \<Rightarrow> breakdown_entry" where
  "entry_of total_value a =
     \<lparr>e_asset_id = asset_id a, e_type = asset_type a,
      e_market_value = get_float (market_value a),
      alloc_pct = get_float (market_value a) / total_value,
      risk_score_raw = get_asset_risk_score a,
      risk_contribution = get_float (market_value a) / total_value * get_asset_risk_score a\<rparr>"

text \<open>
  The reason that the \<open>bank_fd\<close> branch of the first loop of \<open>build_recommendations\<close>
  assigns: \<open>better\<close> is non-empty exactly when some bond with credit \<open>AAA\<close> or \<open>AA\<close>
  has a yield of at least the asset's \<open>fd_rate\<close>.
\<close>

definition fd_reason :: "asset \<Rightarrow> bond list \<Rightarrow> string" where
  "fd_reason a bond_universe =
     (if \<exists>b \<in> set bond_universe. credit b \<in> {''AAA'', ''AA''} \<and> get_float (fd_rate a) \<le> yield b
      then ''fd_replace'' else ''fd_suggest_ladder'')"

text \<open>
  Example inputs: a portfolio whose market values are all zero or missing, one whose
  market values are \<open>5\<close> and \<open>-5\<close>, and a universe of two bonds that differ in their
  identifier only.
\<close>

definition idle_assets :: "asset list" where
  "idle_assets =
     [\<lparr>asset_id = Some ''S_1'', asset_type = Some ''stock'', a_name = None,
       risk_label = Some ''high'', market_value = Some 0, expected_return = None,
       cagr = None, fd_rate = None\<rparr>,
      \<lparr>asset_id = Some ''FD_2'', asset_type = Some ''bank_fd'', a_name = None,
       risk_label = None, market_value = None, expected_return = None,
       cagr = None, fd_rate = Some 0.07\<rparr>]"

definition offsetting_assets :: "asset list" where
  "offsetting_assets =
     [\<lparr>asset_id = Some ''S_1'', asset_type = Some ''stock'', a_name = None,
       risk_label = Some ''high'', market_value = Some 5, expected_return = None,
       cagr = None, fd_rate = None\<rparr>,
      \<lparr>asset_id = Some ''FD_2'', asset_type = Some ''bank_fd'', a_name = None,
       risk_label = Some ''low'', market_value = Some (- 5), expected_return = None,
       cagr = None, fd_rate = Some 0.07\<rparr>]"


section \<open>Properties of the pricing service\<close>

subsection \<open>Auxiliary facts\<close>

lemma bind_err_Inr_iff:
  "bind_err m g = Inr r \<longleftrightarrow> (\<exists>x. m = Inr x \<and> g x = Inr r)"
  by (cases m) (simp_all add: bind_err_def)

lemmas pricing_unfold =
  calculate_fraction_price_def rating_branch_def current_yield_locals_def
  bind_err_def py_div_def py_round_def round_half_even_def Let_def HIGH_RATED_def
  LOW_RATED_def proj_def round_if_truthy_def mode_label_def

lemma low_not_high: "rating \<in> set LOW_RATED \<Longrightarrow> rating \<notin> set HIGH_RATED"
  by (auto simp: LOW_RATED_def HIGH_RATED_def)

lemma rating_branch_low:
  "rating \<in> set LOW_RATED \<Longrightarrow>
   rating_branch F c rating m fr u f =
     bind_err (py_div F fr) (\<lambda>_. current_yield_locals F c fr (F * (1 + c * 0.75)) None)"
  by (simp add: rating_branch_def low_not_high Let_def)

lemma current_yield_locals_Inr:
  "current_yield_locals F c fr st Y = Inr v \<Longrightarrow>
     fr \<noteq> 0 \<and> v_fraction_price v = py_round (v_seller_total v / fr) 2
     \<and> v_buyer_cost v = v_fraction_price v * fr \<and> v_buyer_cost v \<noteq> 0
     \<and> v_buyer_yield v = Some (c * F / v_buyer_cost v * 100) \<and> v_Y v = Y"
  by (auto simp: current_yield_locals_def bind_err_Inr_iff py_div_def Let_def split: if_splits)

lemma rating_branch_classified:
  assumes "rating_branch F c rating m fr u f = Inr v"
    and "rating \<in> set HIGH_RATED \<or> rating \<in> set LOW_RATED"
  shows "v_fraction_price v = py_round (v_seller_total v / fr) 2"
  using assms
  by (auto simp: rating_branch_def bind_err_Inr_iff py_div_def Let_def
      dest!: current_yield_locals_Inr split: if_splits)

lemma rating_branch_unclassified:
  assumes "rating_branch F c rating m fr u f = Inr v"
    and "rating \<notin> set HIGH_RATED" and "rating \<notin> set LOW_RATED"
  shows "fr \<noteq> 0 \<and> v_fraction_price v = F / fr \<and> v_seller_total v = F
         \<and> v_buyer_yield v = Some (c * 100) \<and> v_Y v = None"
  using assms
  by (auto simp: rating_branch_def bind_err_Inr_iff py_div_def Let_def split: if_splits)

text \<open>Concrete runs used below.\<close>

lemma ccc_pv_forward:
  "calculate_fraction_price 1000 (8 / 100) ''CCC'' 0 3 100 True False =
     Inr \<lparr>fraction_price = 53 / 5, seller_total = 1060,
          buyer_expected_yield_pct = Some (151 / 20),
          proj_1_year = \<lparr>absolute_interest = 80, return_pct_of_cost = 151 / 20\<rparr>,
          proj_3_year = \<lparr>absolute_interest = 240, return_pct_of_cost = 566 / 25\<rparr>,
          proj_5_year = \<lparr>absolute_interest = 240, return_pct_of_cost = 566 / 25\<rparr>,
          pricing_mode = ''pv_forward'', used_yield = None\<rparr>"
  by (simp add: pricing_unfold)

lemma ccc_force_seller:
  "calculate_fraction_price 1000 (8 / 100) ''CCC'' 0 3 100 False True =
     Inr \<lparr>fraction_price = 53 / 5, seller_total = 1060,
          buyer_expected_yield_pct = Some (151 / 20),
          proj_1_year = \<lparr>absolute_interest = 80, return_pct_of_cost = 151 / 20\<rparr>,
          proj_3_year = \<lparr>absolute_interest = 240, return_pct_of_cost = 566 / 25\<rparr>,
          proj_5_year = \<lparr>absolute_interest = 240, return_pct_of_cost = 566 / 25\<rparr>,
          pricing_mode = ''force_seller'', used_yield = None\<rparr>"
  by (simp add: pricing_unfold)

lemma xyz_result:
  "calculate_fraction_price 1000 (8 / 100) ''XYZ'' 0 3 3 True False =
     Inr \<lparr>fraction_price = 1000 / 3, seller_total = 1000,
          buyer_expected_yield_pct = Some 8,
          proj_1_year = \<lparr>absolute_interest = 80, return_pct_of_cost = 8\<rparr>,
          proj_3_year = \<lparr>absolute_interest = 240, return_pct_of_cost = 24\<rparr>,
          proj_5_year = \<lparr>absolute_interest = 240, return_pct_of_cost = 24\<rparr>,
          pricing_mode = ''pv_forward'', used_yield = None\<rparr>"
  by (simp add: pricing_unfold)

lemma xyz_locals:
  "rating_branch 1000 (8 / 100) ''XYZ'' 3 3 True False =
     Inr \<lparr>v_fraction_price = 1000 / 3, v_seller_total = 1000, v_buyer_cost = 1000,
          v_buyer_yield = Some 8, v_Y = None\<rparr>"
  by (simp add: pricing_unfold)

lemma ccc_zero_coupon:
  "calculate_fraction_price 1000 0 ''CCC'' 0 3 100 True False =
     Inr \<lparr>fraction_price = 10, seller_total = 1000, buyer_expected_yield_pct = None,
          proj_1_year = \<lparr>absolute_interest = 0, return_pct_of_cost = 0\<rparr>,
          proj_3_year = \<lparr>absolute_interest = 0, return_pct_of_cost = 0\<rparr>,
          proj_5_year = \<lparr>absolute_interest = 0, return_pct_of_cost = 0\<rparr>,
          pricing_mode = ''pv_forward'', used_yield = None\<rparr>"
  by (simp add: pricing_unfold)

lemma aaa_zero_coupon_locals:
  "rating_branch 1000 0 ''AAA'' 0 100 True False =
     Inr \<lparr>v_fraction_price = 10, v_seller_total = 1000, v_buyer_cost = 1000,
          v_buyer_yield = Some 0, v_Y = Some 0\<rparr>"
  by (simp add: pricing_unfold target_yield_for_time_def pv_price_def)

lemma aaa_zero_coupon:
  "calculate_fraction_price 1000 0 ''AAA'' 0 0 100 True False =
     Inr \<lparr>fraction_price = 10, seller_total = 1000, buyer_expected_yield_pct = None,
          proj_1_year = \<lparr>absolute_interest = 0, return_pct_of_cost = 0\<rparr>,
          proj_3_year = \<lparr>absolute_interest = 0, return_pct_of_cost = 0\<rparr>,
          proj_5_year = \<lparr>absolute_interest = 0, return_pct_of_cost = 0\<rparr>,
          pricing_mode = ''pv_forward'', used_yield = None\<rparr>"
  by (simp add: pricing_unfold target_yield_for_time_def pv_price_def)

subsection \<open>PV pricer identities\<close>

text \<open>
  C9 (as amended). For every face value \<open>F\<close>, coupon rate \<open>c\<close> and whole number of years
  \<open>n \<ge> 1\<close>, \<open>pv_price(F, c, 0, n) = F + c * F * n\<close>; and for every yield \<open>y\<close>,
  \<open>pv_price(F, c, y, 0) = F * (1 + c)\<close>. The first identity needs \<open>n \<ge> 1\<close>: at
  \<open>n = 0\<close> the source returns the face value plus one coupon.
\<close>

theorem pv_price_identities:
  "(1 \<le> n \<longrightarrow> pv_price F c 0 (of_int n) = Inr (F + c * F * of_int n))
   \<and> pv_price F c y 0 = Inr (F * (1 + c))"
proof
  show "1 \<le> n \<longrightarrow> pv_price F c 0 (of_int n) = Inr (F + c * F * of_int n)"
  proof
    assume n: "1 \<le> n"
    then have k: "nat (max \<lceil>(of_int n :: real)\<rceil> 0) = nat n" "nat n \<noteq> 0"
      by simp_all
    have len: "real (nat n) = of_int n"
      using n by simp
    have "pv_value F (F * c) 0 (nat n) = real (nat n) * (F * c) + F"
      using k(2) n by (auto simp: pv_value_def sum_list_triv Suc_le_eq algebra_simps)
    then have "pv_value F (F * c) 0 (nat n) = F + c * F * of_int n"
      by (simp only: len) (simp add: algebra_simps)
    then show "pv_price F c 0 (of_int n) = Inr (F + c * F * of_int n)"
      using k by (simp add: pv_price_def Let_def)
  qed
  show "pv_price F c y 0 = Inr (F * (1 + c))"
    by (simp add: pv_price_def algebra_simps)
qed

theorem pv_price_identities_witness:
  "pv_price 1000 (8 / 100) 0 3 = Inr 1240 \<and> pv_price 1000 (8 / 100) (5 / 100) 0 = Inr 1080"
  using pv_price_identities [of 3 1000 "8 / 100" "5 / 100"] by simp

text \<open>
  At \<open>n = 0\<close> the zero-yield price is \<open>F + c * F\<close>, not \<open>F + c * F * 0\<close>.
\<close>

theorem pv_price_zero_years_counterexample:
  "pv_price 100 (1 / 10) 0 0 = Inr 110 \<and> (100::real) + (1 / 10) * 100 * 0 \<noteq> 110"
  by (simp add: pv_price_def)

subsection \<open>The reported pricing mode\<close>

text \<open>
  C1 (as amended). The \<open>pricing_mode\<close> field is computed from the two flags alone,
  whatever the rating: \<open>pv_forward\<close> when \<open>use_pv_forward\<close> holds and
  \<open>force_seller_target\<close> does not, \<open>force_seller\<close> when \<open>force_seller_target\<close> holds,
  \<open>fallback\<close> otherwise. For a low-rated rating every other field of the result is the
  same under all flag settings.
\<close>

theorem pricing_mode_from_flags:
  "(calculate_fraction_price F c rating pa m fr u f = Inr r \<longrightarrow>
      pricing_mode r =
        (if u \<and> \<not> f then ''pv_forward'' else if f then ''force_seller'' else ''fallback''))
   \<and> (rating \<in> set LOW_RATED \<longrightarrow>
        map_sum id (\<lambda>r. (fraction_price r, seller_total r, buyer_expected_yield_pct r,
                         proj_1_year r, proj_3_year r, proj_5_year r, used_yield r))
          (calculate_fraction_price F c rating pa m fr u f)
      = map_sum id (\<lambda>r. (fraction_price r, seller_total r, buyer_expected_yield_pct r,
                         proj_1_year r, proj_3_year r, proj_5_year r, used_yield r))
          (calculate_fraction_price F c rating pa m fr u' f'))"
proof (intro conjI impI)
  assume "calculate_fraction_price F c rating pa m fr u f = Inr r"
  then show "pricing_mode r =
        (if u \<and> \<not> f then ''pv_forward'' else if f then ''force_seller'' else ''fallback'')"
    by (auto simp: calculate_fraction_price_def bind_err_Inr_iff mode_label_def)
next
  assume low: "rating \<in> set LOW_RATED"
  have "rating_branch F c rating m fr u f = rating_branch F c rating m fr u' f'"
    by (simp add: rating_branch_low [OF low])
  then show "map_sum id (\<lambda>r. (fraction_price r, seller_total r, buyer_expected_yield_pct r,
                         proj_1_year r, proj_3_year r, proj_5_year r, used_yield r))
          (calculate_fraction_price F c rating pa m fr u f)
      = map_sum id (\<lambda>r. (fraction_price r, seller_total r, buyer_expected_yield_pct r,
                         proj_1_year r, proj_3_year r, proj_5_year r, used_yield r))
          (calculate_fraction_price F c rating pa m fr u' f')"
    by (cases "rating_branch F c rating m fr u' f'")
       (simp_all add: calculate_fraction_price_def bind_err_def)
qed

theorem pricing_mode_from_flags_witness:
  "calculate_fraction_price 1000 (8 / 100) ''CCC'' 0 3 100 True False =
     Inr \<lparr>fraction_price = 53 / 5, seller_total = 1060,
          buyer_expected_yield_pct = Some (151 / 20),
          proj_1_year = \<lparr>absolute_interest = 80, return_pct_of_cost = 151 / 20\<rparr>,
          proj_3_year = \<lparr>absolute_interest = 240, return_pct_of_cost = 566 / 25\<rparr>,
          proj_5_year = \<lparr>absolute_interest = 240, return_pct_of_cost = 566 / 25\<rparr>,
          pricing_mode = ''pv_forward'', used_yield = None\<rparr>
   \<and> ''CCC'' \<in> set LOW_RATED
   \<and> map_sum id fraction_price (calculate_fraction_price 1000 (8 / 100) ''CCC'' 0 3 100 True False)
     = map_sum id fraction_price (calculate_fraction_price 1000 (8 / 100) ''CCC'' 0 3 100 False True)"
  using pricing_mode_from_flags [of 1000 "8 / 100" "''CCC''" 0 3 100 True False
      "\<lparr>fraction_price = 53 / 5, seller_total = 1060,
          buyer_expected_yield_pct = Some (151 / 20),
          proj_1_year = \<lparr>absolute_interest = 80, return_pct_of_cost = 151 / 20\<rparr>,
          proj_3_year = \<lparr>absolute_interest = 240, return_pct_of_cost = 566 / 25\<rparr>,
          proj_5_year = \<lparr>absolute_interest = 240, return_pct_of_cost = 566 / 25\<rparr>,
          pricing_mode = ''pv_forward'', used_yield = None\<rparr>" False True]
    ccc_pv_forward ccc_force_seller
  by (simp add: LOW_RATED_def)

text \<open>
  For the low-rated rating \<open>CCC\<close> the seller total is the same under both flag
  settings, yet the reported mode follows the flags.
\<close>

theorem pricing_mode_low_rated_counterexample:
  "map_sum id pricing_mode (calculate_fraction_price 1000 (8 / 100) ''CCC'' 0 3 100 True False)
     = Inr ''pv_forward''
   \<and> map_sum id pricing_mode (calculate_fraction_price 1000 (8 / 100) ''CCC'' 0 3 100 False True)
     = Inr ''force_seller''
   \<and> map_sum id seller_total (calculate_fraction_price 1000 (8 / 100) ''CCC'' 0 3 100 True False)
     = map_sum id seller_total (calculate_fraction_price 1000 (8 / 100) ''CCC'' 0 3 100 False True)"
  using ccc_pv_forward ccc_force_seller by simp

subsection \<open>Rounding of the per-fraction price\<close>

text \<open>
  C2 (as amended). Whenever \<open>calculate_fraction_price\<close> returns: for a rating in
  \<open>HIGH_RATED\<close> or \<open>LOW_RATED\<close> (all three high-rated modes and the low-rated branch)
  the returned \<open>fraction_price\<close> is \<open>round(seller_total / fractions, 2)\<close>, with
  \<open>seller_total\<close> the branch's unrounded seller total; for any other rating it is
  \<open>face_value / fractions\<close>, not rounded, and the seller total is \<open>face_value\<close>.
\<close>

theorem fraction_price_rounding:
  "calculate_fraction_price F c rating pa m fr u f = Inr r \<Longrightarrow>
   \<exists>v. rating_branch F c rating m fr u f = Inr v \<and>
       (if rating \<in> set HIGH_RATED \<or> rating \<in> set LOW_RATED
        then fraction_price r = py_round (v_seller_total v / fr) 2
        else fraction_price r = F / fr \<and> v_seller_total v = F)"
proof -
  assume "calculate_fraction_price F c rating pa m fr u f = Inr r"
  then obtain v where v: "rating_branch F c rating m fr u f = Inr v"
    and r: "fraction_price r = v_fraction_price v"
    by (auto simp: calculate_fraction_price_def bind_err_Inr_iff)
  show ?thesis
  proof (cases "rating \<in> set HIGH_RATED \<or> rating \<in> set LOW_RATED")
    case True
    then show ?thesis
      using v r rating_branch_classified [OF v True] by simp
  next
    case False
    then show ?thesis
      using v r rating_branch_unclassified [OF v] by simp
  qed
qed

theorem fraction_price_rounding_witness:
  "calculate_fraction_price 1000 (8 / 100) ''CCC'' 0 3 100 True False =
     Inr \<lparr>fraction_price = 53 / 5, seller_total = 1060,
          buyer_expected_yield_pct = Some (151 / 20),
          proj_1_year = \<lparr>absolute_interest = 80, return_pct_of_cost = 151 / 20\<rparr>,
          proj_3_year = \<lparr>absolute_interest = 240, return_pct_of_cost = 566 / 25\<rparr>,
          proj_5_year = \<lparr>absolute_interest = 240, return_pct_of_cost = 566 / 25\<rparr>,
          pricing_mode = ''pv_forward'', used_yield = None\<rparr>
   \<and> (\<exists>v. rating_branch 1000 (8 / 100) ''CCC'' 3 100 True False = Inr v
          \<and> 53 / 5 = py_round (v_seller_total v / 100) 2)"
  using fraction_price_rounding [OF ccc_pv_forward] ccc_pv_forward
  by (simp add: LOW_RATED_def)

text \<open>
  An unclassified rating with \<open>face_value = 1000\<close> and \<open>fractions = 3\<close>: the returned
  price per fraction is \<open>1000 / 3\<close>, while rounding to 2 decimals gives \<open>333.33\<close>.
\<close>

theorem fraction_price_unclassified_counterexample:
  "map_sum id fraction_price (calculate_fraction_price 1000 (8 / 100) ''XYZ'' 0 3 3 True False)
     = Inr (1000 / 3)
   \<and> map_sum id v_seller_total (rating_branch 1000 (8 / 100) ''XYZ'' 3 3 True False) = Inr 1000
   \<and> py_round (1000 / 3) 2 = 33333 / 100
   \<and> (1000 / 3 :: real) \<noteq> 33333 / 100"
  using xyz_result xyz_locals by (simp add: py_round_def round_half_even_def Let_def)

subsection \<open>Yields that are zero are reported as null\<close>

text \<open>
  C10. The result tests the computed yields for truthiness: whenever
  \<open>calculate_fraction_price\<close> returns and the computed \<open>buyer_yield\<close> is exactly \<open>0\<close>,
  \<open>buyer_expected_yield_%\<close> is null; whenever the internal yield \<open>Y\<close> is exactly \<open>0\<close>,
  \<open>used_yield\<close> is null. With \<open>coupon_rate = 0\<close> under a low-rated or unclassified
  rating the computed buyer yield is \<open>0\<close>, so the reported yield is null although the
  yield solver was never run.
\<close>

theorem falsy_yield_reported_null:
  "calculate_fraction_price F c rating pa m fr u f = Inr r \<Longrightarrow>
   \<exists>v. rating_branch F c rating m fr u f = Inr v
     \<and> (v_buyer_yield v = Some 0 \<longrightarrow> buyer_expected_yield_pct r = None)
     \<and> (v_Y v = Some 0 \<longrightarrow> used_yield r = None)
     \<and> (c = 0 \<and> rating \<notin> set HIGH_RATED \<longrightarrow>
          v_buyer_yield v = Some 0 \<and> buyer_expected_yield_pct r = None)"
proof -
  assume "calculate_fraction_price F c rating pa m fr u f = Inr r"
  then obtain v where v: "rating_branch F c rating m fr u f = Inr v"
    and bey: "buyer_expected_yield_pct r = round_if_truthy (v_buyer_yield v) 2"
    and uy: "used_yield r = round_if_truthy (v_Y v) 6"
    by (auto simp: calculate_fraction_price_def bind_err_Inr_iff)
  have zero: "c = 0 \<and> rating \<notin> set HIGH_RATED \<longrightarrow> v_buyer_yield v = Some 0"
  proof (cases "rating \<in> set LOW_RATED")
    case True
    then obtain st where "current_yield_locals F c fr st None = Inr v"
      using v by (auto simp: rating_branch_low bind_err_Inr_iff)
    from current_yield_locals_Inr [OF this] show ?thesis by simp
  next
    case False
    then show ?thesis using rating_branch_unclassified [OF v] by auto
  qed
  show ?thesis
    using v bey uy zero by (auto simp: round_if_truthy_def)
qed

theorem falsy_yield_reported_null_witness:
  "map_sum id buyer_expected_yield_pct
     (calculate_fraction_price 1000 0 ''CCC'' 0 3 100 True False) = Inr None
   \<and> map_sum id v_buyer_yield (rating_branch 1000 0 ''CCC'' 3 100 True False) = Inr (Some 0)
   \<and> map_sum id used_yield
     (calculate_fraction_price 1000 0 ''AAA'' 0 0 100 True False) = Inr None
   \<and> map_sum id v_Y (rating_branch 1000 0 ''AAA'' 0 100 True False) = Inr (Some 0)"
  using falsy_yield_reported_null [OF ccc_zero_coupon] falsy_yield_reported_null [OF aaa_zero_coupon]
    ccc_zero_coupon aaa_zero_coupon aaa_zero_coupon_locals
  by (auto simp: LOW_RATED_def HIGH_RATED_def)

subsection \<open>The yield solver: when it returns None and what it returns otherwise\<close>

lemma pv_price_defined:
  "- 1 < y \<Longrightarrow> pv_price F c y years = Inr (price_gap F c price years y + price)"
  by (simp add: pv_price_def price_gap_def pv_value_def Let_def)

lemma same_strict_sign_mult: "0 < x * y \<longleftrightarrow> same_strict_sign x y"
  by (auto simp: same_strict_sign_def zero_less_mult_iff)

lemma bisect_outcome_ex:
  assumes "- 1 < a" "- 1 < b"
  shows "\<exists>r. bisect F c price years eps k a b fa fb = Inr r
           \<and> bisect_outcome (price_gap F c price years) eps k (a, b, fa, fb) r"
  using assms
proof (induction k arbitrary: a b fa fb)
  case 0
  have "bisect_outcome (price_gap F c price years) eps 0 (a, b, fa, fb) (0.5 * (a + b))"
    by (simp add: bisect_outcome_def)
  then show ?case by (intro exI [of _ "0.5 * (a + b)"]) simp
next
  case (Suc k)
  let ?f = "price_gap F c price years"
  let ?m = "0.5 * (a + b)"
  have m: "- 1 < ?m" using Suc.prems by simp
  have pm: "pv_price F c ?m years = Inr (?f ?m + price)"
    using pv_price_defined [OF m] .
  show ?case
  proof (cases "\<bar>?f ?m\<bar> < eps")
    case True
    have "bisect_outcome ?f eps (Suc k) (a, b, fa, fb) ?m"
      unfolding bisect_outcome_def
      by (rule exI [of _ 0]) (use True in simp)
    then show ?thesis using True pm by (intro exI [of _ ?m]) (simp add: Let_def)
  next
    case False
    show ?thesis
    proof (cases "fa * ?f ?m \<le> 0")
      case le: True
      from Suc.IH [OF Suc.prems(1) m, of fa "?f ?m"]
      obtain r where r: "bisect F c price years eps k a ?m fa (?f ?m) = Inr r"
        and o: "bisect_outcome ?f eps k (a, ?m, fa, ?f ?m) r" by blast
      from o obtain j where j: "j \<le> k" "r = bracket_mid (bracket_after ?f j (a, ?m, fa, ?f ?m))"
        "\<forall>i < j. \<not> \<bar>?f (bracket_mid (bracket_after ?f i (a, ?m, fa, ?f ?m)))\<bar> < eps"
        "j < k \<longrightarrow> \<bar>?f r\<bar> < eps"
        by (auto simp: bisect_outcome_def)
      have st: "bracket_step ?f (a, b, fa, fb) = (a, ?m, fa, ?f ?m)"
        using le by (simp add: Let_def)
      have "bisect_outcome ?f eps (Suc k) (a, b, fa, fb) r"
        unfolding bisect_outcome_def
      proof (rule exI [of _ "Suc j"], intro conjI allI impI)
        show "Suc j \<le> Suc k" using j(1) by simp
        show "r = bracket_mid (bracket_after ?f (Suc j) (a, b, fa, fb))"
          using j(2) st by simp
        show "\<not> \<bar>?f (bracket_mid (bracket_after ?f i (a, b, fa, fb)))\<bar> < eps" if "i < Suc j" for i
        proof (cases i)
          case 0
          then show ?thesis using False by simp
        next
          case (Suc i')
          then show ?thesis using j(3) that st by simp
        qed
        show "\<bar>?f r\<bar> < eps" if "Suc j < Suc k"
          using j(4) that by simp
      qed
      then show ?thesis using False le pm r by (simp add: Let_def)
    next
      case gt: False
      from Suc.IH [OF m Suc.prems(2), of "?f ?m" fb]
      obtain r where r: "bisect F c price years eps k ?m b (?f ?m) fb = Inr r"
        and o: "bisect_outcome ?f eps k (?m, b, ?f ?m, fb) r" by blast
      from o obtain j where j: "j \<le> k" "r = bracket_mid (bracket_after ?f j (?m, b, ?f ?m, fb))"
        "\<forall>i < j. \<not> \<bar>?f (bracket_mid (bracket_after ?f i (?m, b, ?f ?m, fb)))\<bar> < eps"
        "j < k \<longrightarrow> \<bar>?f r\<bar> < eps"
        by (auto simp: bisect_outcome_def)
      have st: "bracket_step ?f (a, b, fa, fb) = (?m, b, ?f ?m, fb)"
        using gt by (simp add: Let_def)
      have "bisect_outcome ?f eps (Suc k) (a, b, fa, fb) r"
        unfolding bisect_outcome_def
      proof (rule exI [of _ "Suc j"], intro conjI allI impI)
        show "Suc j \<le> Suc k" using j(1) by simp
        show "r = bracket_mid (bracket_after ?f (Suc j) (a, b, fa, fb))"
          using j(2) st by simp
        show "\<not> \<bar>?f (bracket_mid (bracket_after ?f i (a, b, fa, fb)))\<bar> < eps" if "i < Suc j" for i
        proof (cases i)
          case 0
          then show ?thesis using False by simp
        next
          case (Suc i')
          then show ?thesis using j(3) that st by simp
        qed
        show "\<bar>?f r\<bar> < eps" if "Suc j < Suc k"
          using j(4) that by simp
      qed
      then show ?thesis using False gt pm r by (simp add: Let_def)
    qed
  qed
qed

lemma gap_at_lo: "0 < price_gap 1000 (8 / 100) 1000 1 (1 / 10 ^ 8)"
  by (simp add: price_gap_def pv_value_def)

lemma gap_at_hi: "price_gap 1000 (8 / 100) 1000 1 1 < 0"
  by (simp add: price_gap_def pv_value_def)

lemma gap_free_lo: "0 < price_gap 1000 (8 / 100) 0 1 (1 / 10 ^ 8)"
  by (simp add: price_gap_def pv_value_def)

lemma gap_free_hi: "0 < price_gap 1000 (8 / 100) 0 1 1"
  by (simp add: price_gap_def pv_value_def)

lemma gap_free_ten: "0 < price_gap 1000 (8 / 100) 0 1 10"
  by (simp add: price_gap_def pv_value_def)

text \<open>
  C4. With both ends of the search interval above \<open>-1\<close> (the precondition of the PV
  pricer, so that no division by zero is raised), \<open>implied_yield_for_price\<close> returns
  \<open>None\<close> if and only if \<open>f(y) = pv_price(y) - price\<close> has the same strict sign at
  \<open>lo\<close> and \<open>hi\<close> and also at \<open>lo\<close> and \<open>10.0\<close>. In every other case it returns a
  real number, which is an outcome of the bisection loop on the bracket \<open>[lo, hi]\<close>
  (or \<open>[lo, 10]\<close> after the widening): the first midpoint \<open>m\<close> with \<open>|f(m)| < eps\<close>
  within \<open>max_iter\<close> passes, or the midpoint of the final bracket when no midpoint met
  the tolerance.
\<close>

theorem implied_yield_none_iff:
  assumes "- 1 < lo" and "- 1 < hi"
  shows "(implied_yield_for_price F c price years lo hi eps max_iter = Inr None \<longleftrightarrow>
            same_strict_sign (price_gap F c price years lo) (price_gap F c price years hi)
            \<and> same_strict_sign (price_gap F c price years lo) (price_gap F c price years 10))
         \<and> (\<not> same_strict_sign (price_gap F c price years lo) (price_gap F c price years hi) \<longrightarrow>
              (\<exists>r. implied_yield_for_price F c price years lo hi eps max_iter = Inr (Some r)
                 \<and> bisect_outcome (price_gap F c price years) eps max_iter
                      (lo, hi, price_gap F c price years lo, price_gap F c price years hi) r))
         \<and> (same_strict_sign (price_gap F c price years lo) (price_gap F c price years hi)
              \<and> \<not> same_strict_sign (price_gap F c price years lo) (price_gap F c price years 10) \<longrightarrow>
              (\<exists>r. implied_yield_for_price F c price years lo hi eps max_iter = Inr (Some r)
                 \<and> bisect_outcome (price_gap F c price years) eps max_iter
                      (lo, 10, price_gap F c price years lo, price_gap F c price years 10) r))"
proof -
  let ?f = "price_gap F c price years"
  have ten: "- 1 < (10::real)" by simp
  note pv = pv_price_defined [OF assms(1), of F c years price]
    pv_price_defined [OF assms(2), of F c years price]
    pv_price_defined [OF ten, of F c years price]
  show ?thesis
  proof (cases "same_strict_sign (?f lo) (?f hi)")
    case False
    from bisect_outcome_ex [OF assms, of F c price years eps max_iter "?f lo" "?f hi"]
    obtain r where "bisect F c price years eps max_iter lo hi (?f lo) (?f hi) = Inr r"
      and "bisect_outcome ?f eps max_iter (lo, hi, ?f lo, ?f hi) r" by blast
    then show ?thesis
      using False pv
      by (simp add: implied_yield_for_price_def bind_err_def Let_def same_strict_sign_mult)
  next
    case True
    show ?thesis
    proof (cases "same_strict_sign (?f lo) (?f 10)")
      case same: True
      then show ?thesis
        using True pv
        by (simp add: implied_yield_for_price_def bind_err_def Let_def same_strict_sign_mult)
    next
      case False
      from bisect_outcome_ex [OF assms(1) ten, of F c price years eps max_iter "?f lo" "?f 10"]
      obtain r where "bisect F c price years eps max_iter lo 10 (?f lo) (?f 10) = Inr r"
        and "bisect_outcome ?f eps max_iter (lo, 10, ?f lo, ?f 10) r" by blast
      then show ?thesis
        using True False pv
        by (simp add: implied_yield_for_price_def bind_err_def Let_def same_strict_sign_mult)
    qed
  qed
qed

theorem implied_yield_none_iff_witness:
  "(- 1 :: real) < 1 / 10 ^ 8 \<and> (- 1 :: real) < 1
   \<and> \<not> same_strict_sign (price_gap 1000 (8 / 100) 1000 1 (1 / 10 ^ 8))
                          (price_gap 1000 (8 / 100) 1000 1 1)
   \<and> (\<exists>r. implied_yield_for_price 1000 (8 / 100) 1000 1 (1 / 10 ^ 8) 1 (1 / 10 ^ 8) 200
              = Inr (Some r)
          \<and> bisect_outcome (price_gap 1000 (8 / 100) 1000 1) (1 / 10 ^ 8) 200
               (1 / 10 ^ 8, 1, price_gap 1000 (8 / 100) 1000 1 (1 / 10 ^ 8),
                price_gap 1000 (8 / 100) 1000 1 1) r)
   \<and> same_strict_sign (price_gap 1000 (8 / 100) 0 1 (1 / 10 ^ 8)) (price_gap 1000 (8 / 100) 0 1 1)
   \<and> same_strict_sign (price_gap 1000 (8 / 100) 0 1 (1 / 10 ^ 8)) (price_gap 1000 (8 / 100) 0 1 10)
   \<and> implied_yield_for_price 1000 (8 / 100) 0 1 (1 / 10 ^ 8) 1 (1 / 10 ^ 8) 200 = Inr None"
proof -
  have lo: "(- 1 :: real) < 1 / 10 ^ 8" and hi: "(- 1 :: real) < 1" by simp_all
  have ns: "\<not> same_strict_sign (price_gap 1000 (8 / 100) 1000 1 (1 / 10 ^ 8))
                          (price_gap 1000 (8 / 100) 1000 1 1)"
    using gap_at_lo gap_at_hi by (simp add: same_strict_sign_def)
  have s1: "same_strict_sign (price_gap 1000 (8 / 100) 0 1 (1 / 10 ^ 8)) (price_gap 1000 (8 / 100) 0 1 1)"
    using gap_free_lo gap_free_hi by (simp add: same_strict_sign_def)
  have s2: "same_strict_sign (price_gap 1000 (8 / 100) 0 1 (1 / 10 ^ 8)) (price_gap 1000 (8 / 100) 0 1 10)"
    using gap_free_lo gap_free_ten by (simp add: same_strict_sign_def)
  show ?thesis
    using implied_yield_none_iff [OF lo hi, of 1000 "8 / 100" 1000 1 "1 / 10 ^ 8" 200]
      implied_yield_none_iff [OF lo hi, of 1000 "8 / 100" 0 1 "1 / 10 ^ 8" 200]
      lo hi ns s1 s2
    by blast
qed

subsection \<open>Round trip of pricing and yield solving\<close>

lemma discount_mono:
  fixes K u v :: real
  assumes "0 < u" "u \<le> v" "0 \<le> K"
  shows "K / v ^ t \<le> K / u ^ t"
proof -
  have "u ^ t \<le> v ^ t" using assms by (intro power_mono) simp_all
  moreover have "0 < u ^ t" using assms by simp
  ultimately show ?thesis using assms by (intro divide_left_mono) (simp_all add: zero_less_mult_iff)
qed

lemma pv_value_gap:
  assumes n: "1 \<le> n" and F: "0 \<le> F" and C: "0 \<le> C" and u: "- 1 < u" and uv: "u \<le> v"
  shows "C * (v - u) / ((1 + u) * (1 + v)) \<le> pv_value F C u n - pv_value F C v n"
proof -
  have pu: "0 < 1 + u" and puv: "1 + u \<le> 1 + v" and pv: "0 < 1 + v" using u uv by simp_all
  have "(1::nat) < n + 1" using n by simp
  from upt_conv_Cons [OF this] have up: "[1 ..< n + 1] = 1 # [2 ..< n + 1]"
    by (simp only: Suc_1 [symmetric] One_nat_def)
  have tail: "sum_list (map (\<lambda>t. C / (1 + v) ^ t) [2 ..< n + 1])
                \<le> sum_list (map (\<lambda>t. C / (1 + u) ^ t) [2 ..< n + 1])"
    by (intro sum_list_mono discount_mono pu puv C)
  have face: "F / (1 + v) ^ n \<le> F / (1 + u) ^ n"
    by (intro discount_mono pu puv F)
  have first: "C / (1 + u) - C / (1 + v) = C * (v - u) / ((1 + u) * (1 + v))"
    using pu pv by (simp add: field_simps)
  have "pv_value F C u n - pv_value F C v n =
          (C / (1 + u) - C / (1 + v))
          + (sum_list (map (\<lambda>t. C / (1 + u) ^ t) [2 ..< n + 1])
             - sum_list (map (\<lambda>t. C / (1 + v) ^ t) [2 ..< n + 1]))
          + (F / (1 + u) ^ n - F / (1 + v) ^ n)"
    using n by (simp only: pv_value_def up) simp
  then show ?thesis using tail face first by linarith
qed

lemma pv_value_gap_quarter:
  assumes "1 \<le> n" "0 \<le> F" "0 \<le> C" "- 1 < u" "u \<le> v" "v \<le> 1"
  shows "C * (v - u) / 4 \<le> pv_value F C u n - pv_value F C v n"
proof -
  have pos: "0 < (1 + u) * (1 + v)" using assms by (simp add: zero_less_mult_iff)
  have "(1 + u) * (1 + v) \<le> 2 * 2"
    using assms by (intro mult_mono) simp_all
  then have le4: "(1 + u) * (1 + v) \<le> 4" by simp
  have "0 \<le> C * (v - u)" using assms by simp
  then have "C * (v - u) / 4 \<le> C * (v - u) / ((1 + u) * (1 + v))"
    using pos le4 by (intro divide_left_mono) simp_all
  with pv_value_gap [OF assms(1-5)] show ?thesis by linarith
qed

lemma pv_value_antimono:
  assumes "1 \<le> n" "0 \<le> F" "0 \<le> C" "- 1 < u" "u \<le> v"
  shows "pv_value F C v n \<le> pv_value F C u n"
proof -
  have "0 < (1 + u) * (1 + v)" using assms by (simp add: zero_less_mult_iff)
  then have "0 \<le> C * (v - u) / ((1 + u) * (1 + v))" using assms by simp
  with pv_value_gap [OF assms] show ?thesis by linarith
qed

lemma pv_value_strict:
  assumes "1 \<le> n" "0 \<le> F" "0 < C" "- 1 < u" "u < v"
  shows "pv_value F C v n < pv_value F C u n"
proof -
  have "0 < (1 + u) * (1 + v)" using assms by (simp add: zero_less_mult_iff)
  then have "0 < C * (v - u) / ((1 + u) * (1 + v))" using assms by simp
  moreover have "C * (v - u) / ((1 + u) * (1 + v)) \<le> pv_value F C u n - pv_value F C v n"
    using assms by (intro pv_value_gap) simp_all
  ultimately show ?thesis by linarith
qed


lemma pv_price_value:
  "- 1 < y \<Longrightarrow> pv_price F c y years = Inr (pv_value F (F * c) y (nat (max \<lceil>years\<rceil> 0)))"
  by (simp add: pv_price_def pv_value_def Let_def)

lemma bisect_converges:
  fixes F c y years :: real
  defines "N \<equiv> nat (max \<lceil>years\<rceil> 0)"
  defines "P \<equiv> pv_value F (F * c) y N"
  assumes N: "1 \<le> N" and F: "0 \<le> F" and C: "4 / 10 ^ 4 \<le> F * c"
    and ay: "a \<le> y" and yb: "y \<le> b" and a: "- 1 < a" and b: "b \<le> 1"
    and fa: "fa = pv_value F (F * c) a N - P"
    and width: "b - a < 2 ^ k * (2 / 10 ^ 4)"
  shows "\<exists>r. bisect F c P years (1 / 10 ^ 8) k a b fa fb = Inr r \<and> \<bar>r - y\<bar> < 1 / 10 ^ 4"
  using ay yb a b fa width
proof (induction k arbitrary: a b fa fb)
  case 0
  have w: "b - a < 2 / 10000" using "0.prems"(6) by simp
  have "\<bar>(a + b) / 2 - y\<bar> < 1 / 10000"
    using w "0.prems"(1,2) by argo
  then have "\<bar>0.5 * (a + b) - y\<bar> < 1 / 10 ^ 4" by simp
  then show ?case by (intro exI [of _ "0.5 * (a + b)"]) simp
next
  case (Suc k)
  let ?m = "0.5 * (a + b)"
  let ?pv = "\<lambda>x. pv_value F (F * c) x N"
  have C0: "0 \<le> F * c" and Cpos: "0 < F * c" using C by simp_all
  have m1: "- 1 < ?m" and am: "a \<le> ?m" and mb: "?m \<le> b" and m_le: "?m \<le> 1"
    using Suc.prems by simp_all
  have y1: "- 1 < y" and y_le: "y \<le> 1" using Suc.prems by simp_all
  have pm: "pv_price F c ?m years = Inr (?pv ?m)"
    unfolding N_def using pv_price_value [OF m1] .
  have fa_nonneg: "0 \<le> fa"
    using pv_value_antimono [OF N F C0 Suc.prems(3) Suc.prems(1)] Suc.prems(5) by (simp add: P_def)
  show ?case
  proof (cases "\<bar>?pv ?m - P\<bar> < 1 / 10 ^ 8")
    case True
    have close: "\<bar>?m - y\<bar> < 1 / 10 ^ 4"
    proof (cases "?m \<le> y")
      case True
      from pv_value_gap_quarter [OF N F C0 m1 True y_le]
      have "F * c * (y - ?m) / 4 \<le> ?pv ?m - P" by (simp add: P_def)
      moreover have "(4 / 10 ^ 4) * (y - ?m) \<le> F * c * (y - ?m)"
        using C True by (intro mult_right_mono) simp_all
      ultimately have g: "(y - ?m) / 10000 \<le> ?pv ?m - P" by simp
      have t: "\<bar>?pv ?m - P\<bar> < 1 / 100000000"
        using \<open>\<bar>?pv ?m - P\<bar> < 1 / 10 ^ 8\<close> by simp
      have "\<bar>?m - y\<bar> < 1 / 10000" using g t True by argo
      then show ?thesis by simp
    next
      case False
      then have le: "y \<le> ?m" by simp
      from pv_value_gap_quarter [OF N F C0 y1 le m_le]
      have "F * c * (?m - y) / 4 \<le> P - ?pv ?m" by (simp add: P_def)
      moreover have "(4 / 10 ^ 4) * (?m - y) \<le> F * c * (?m - y)"
        using C le by (intro mult_right_mono) simp_all
      ultimately have g: "(?m - y) / 10000 \<le> P - ?pv ?m" by simp
      have t: "\<bar>?pv ?m - P\<bar> < 1 / 100000000"
        using \<open>\<bar>?pv ?m - P\<bar> < 1 / 10 ^ 8\<close> by simp
      have "\<bar>?m - y\<bar> < 1 / 10000" using g t le by argo
      then show ?thesis by simp
    qed
    show ?thesis
      using True pm close by (intro exI [of _ ?m]) (simp add: Let_def)
  next
    case False
    show ?thesis
    proof (cases "fa * (?pv ?m - P) \<le> 0")
      case le: True
      have ym: "y \<le> ?m"
      proof (rule ccontr)
        assume "\<not> y \<le> ?m"
        then have lt: "?m < y" by simp
        from pv_value_strict [OF N F Cpos m1 lt] have "0 < ?pv ?m - P" by (simp add: P_def)
        moreover have "a < y" using am lt by simp
        from pv_value_strict [OF N F Cpos Suc.prems(3) this] have "0 < fa"
          using Suc.prems(5) by (simp add: P_def)
        ultimately have "0 < fa * (?pv ?m - P)" by simp
        with le show False by simp
      qed
      have w: "?m - a < 2 ^ k * (2 / 10 ^ 4)"
      proof -
        define W :: real where "W = 2 ^ k * (2 / 10 ^ 4)"
        have "b - a < 2 * W" using Suc.prems(6) by (simp add: W_def)
        then have "(a + b) / 2 - a < W" by argo
        then show ?thesis by (simp add: W_def)
      qed
      from Suc.IH [OF Suc.prems(1) ym Suc.prems(3) m_le Suc.prems(5) w, of "?pv ?m - P"]
      show ?thesis using False le pm by (simp add: Let_def)
    next
      case gt: False
      then have "0 < fa * (?pv ?m - P)" by simp
      with fa_nonneg have "0 < ?pv ?m - P"
        by (simp add: zero_less_mult_iff)
      have my: "?m \<le> y"
      proof (rule ccontr)
        assume "\<not> ?m \<le> y"
        then have "y \<le> ?m" by simp
        from pv_value_antimono [OF N F C0 y1 this] have "?pv ?m - P \<le> 0" by (simp add: P_def)
        with \<open>0 < ?pv ?m - P\<close> show False by simp
      qed
      have w: "b - ?m < 2 ^ k * (2 / 10 ^ 4)"
      proof -
        define W :: real where "W = 2 ^ k * (2 / 10 ^ 4)"
        have "b - a < 2 * W" using Suc.prems(6) by (simp add: W_def)
        then have "b - (a + b) / 2 < W" by argo
        then show ?thesis by (simp add: W_def)
      qed
      have fm: "?pv ?m - P = pv_value F (F * c) ?m N - P" by simp
      from Suc.IH [OF my Suc.prems(2) m1 Suc.prems(4) fm w, of fb]
      show ?thesis using False gt pm by (simp add: Let_def)
    qed
  qed
qed

lemma bisect_first_step:
  "bisect F c price years eps 200 a b fa fb =
     (let m = 0.5 * (a + b)
      in case pv_price F c m years of
           Inl e \<Rightarrow> Inl e
         | Inr pm \<Rightarrow>
             (let fm = pm - price
              in if \<bar>fm\<bar> < eps then Inr m
                 else if fa * fm \<le> 0
                   then bisect F c price years eps 199 a m fa fm
                   else bisect F c price years eps 199 m b fm fb))"
proof -
  have "(200::nat) = Suc 199" by simp
  then show ?thesis by (simp only: bisect.simps)
qed

lemma unbracketed_at_tiny_yield:
  "implied_yield_default 1000 (8 / 100) (1080000000000 / 1000000001) 1 = Inr None"
  by (simp add: implied_yield_default_def implied_yield_for_price_def pv_price_def
      pv_value_def bind_err_def Let_def)

lemma early_exit_at_tiny_face:
  "implied_yield_default (1 / 10 ^ 9) (1 / 2) (3 / 2200000000) 1
     = Inr (Some (100000001 / 200000000))"
  by (simp add: implied_yield_default_def implied_yield_for_price_def pv_price_def
      pv_value_def bind_err_def Let_def bisect_first_step)

text \<open>
  C3 (as amended). For every face value \<open>F > 0\<close> and coupon rate \<open>c\<close> with annual
  coupon \<open>c * F \<ge> 4e-4\<close>, every yield \<open>1e-8 \<le> y < 1\<close> and every whole maturity
  \<open>n \<ge> 1\<close>: with \<open>P = pv_price(F, c, y, n)\<close>, the solver with its default parameters
  returns a value within \<open>1e-4\<close> of \<open>y\<close>.
\<close>

theorem yield_round_trip:
  fixes F c y :: real and n :: nat
  assumes F: "0 < F" and C: "4 / 10 ^ 4 \<le> c * F"
    and ylo: "1 / 10 ^ 8 \<le> y" and yhi: "y < 1" and n: "1 \<le> n"
  shows "\<exists>P r. pv_price F c y (real n) = Inr P
           \<and> implied_yield_default F c P (real n) = Inr (Some r)
           \<and> \<bar>r - y\<bar> < 1 / 10 ^ 4"
proof -
  let ?pv = "\<lambda>x. pv_value F (F * c) x n"
  let ?lo = "1 / 10 ^ 8 :: real"
  define P where "P = ?pv y"
  have N: "nat (max \<lceil>real n\<rceil> 0) = n" by simp
  have F0: "0 \<le> F" using F by simp
  have C': "4 / 10 ^ 4 \<le> F * c" using C by (simp add: mult.commute)
  then have C0: "0 \<le> F * c" and Cpos: "0 < F * c" by simp_all
  have y1: "- 1 < y" using ylo by simp
  have lo1: "- 1 < ?lo" by simp
  have one1: "- 1 < (1::real)" by simp
  have py: "pv_price F c y (real n) = Inr P"
    using pv_price_value [OF y1, of F c "real n"] by (simp only: N P_def)
  have plo: "pv_price F c ?lo (real n) = Inr (?pv ?lo)"
    using pv_price_value [OF lo1, of F c "real n"] by (simp only: N)
  have phi: "pv_price F c 1 (real n) = Inr (?pv 1)"
    using pv_price_value [OF one1, of F c "real n"] by (simp only: N)
  have fa: "0 \<le> ?pv ?lo - P"
    using pv_value_antimono [OF n F0 C0 lo1 ylo] by (simp add: P_def)
  have fb: "?pv 1 - P < 0"
    using pv_value_strict [OF n F0 Cpos y1 yhi] by (simp add: P_def)
  have prod: "\<not> 0 < (?pv ?lo - P) * (?pv 1 - P)"
    using fa fb by (simp add: zero_less_mult_iff)
  have width: "1 - ?lo < 2 ^ 200 * (2 / 10 ^ 4)" by simp
  have n': "1 \<le> nat (max \<lceil>real n\<rceil> 0)" using n by simp
  have yle: "y \<le> 1" using yhi by simp
  have fa_eq: "?pv ?lo - P = pv_value F (F * c) ?lo (nat (max \<lceil>real n\<rceil> 0))
                 - pv_value F (F * c) y (nat (max \<lceil>real n\<rceil> 0))"
    by (simp only: N P_def)
  from bisect_converges [OF n' F0 C' ylo yle lo1 order_refl fa_eq width, of "?pv 1 - P"]
  obtain r where r: "bisect F c P (real n) ?lo 200 ?lo 1 (?pv ?lo - P) (?pv 1 - P) = Inr r"
    and close: "\<bar>r - y\<bar> < 1 / 10 ^ 4"
    unfolding N P_def by blast
  have "implied_yield_default F c P (real n) = Inr (Some r)"
    unfolding implied_yield_default_def implied_yield_for_price_def
    using plo phi prod r by (simp add: bind_err_def Let_def)
  with py close show ?thesis by blast
qed

theorem yield_round_trip_witness:
  "(0::real) < 1000 \<and> (4 / 10 ^ 4 :: real) \<le> (8 / 100) * 1000
   \<and> (1 / 10 ^ 8 :: real) \<le> 5 / 100 \<and> (5 / 100 :: real) < 1 \<and> (1::nat) \<le> 3
   \<and> (\<exists>P r. pv_price 1000 (8 / 100) (5 / 100) (real (3::nat)) = Inr P
           \<and> implied_yield_default 1000 (8 / 100) P (real (3::nat)) = Inr (Some r)
           \<and> \<bar>r - 5 / 100\<bar> < 1 / 10 ^ 4)"
proof -
  have h: "(0::real) < 1000" "(4 / 10 ^ 4 :: real) \<le> (8 / 100) * 1000"
    "(1 / 10 ^ 8 :: real) \<le> 5 / 100" "(5 / 100 :: real) < 1" "(1::nat) \<le> 3"
    by simp_all
  from yield_round_trip [OF h] h show ?thesis by blast
qed

text \<open>
  Two inputs in the range of the claim as stated. With \<open>y = 1e-9\<close>, below the lower
  end \<open>lo = 1e-8\<close> of the search interval, the root is not bracketed and the solver
  returns \<open>None\<close>. With \<open>F = 1e-9\<close> every price differs from the target by less than
  \<open>eps = 1e-8\<close>, so the first midpoint \<open>0.500000005\<close> is returned although
  \<open>y = 0.1\<close>.
\<close>

theorem yield_round_trip_counterexample:
  "pv_price 1000 (8 / 100) (1 / 10 ^ 9) 1 = Inr (1080000000000 / 1000000001)
   \<and> implied_yield_default 1000 (8 / 100) (1080000000000 / 1000000001) 1 = Inr None
   \<and> pv_price (1 / 10 ^ 9) (1 / 2) (1 / 10) 1 = Inr (3 / 2200000000)
   \<and> implied_yield_default (1 / 10 ^ 9) (1 / 2) (3 / 2200000000) 1
       = Inr (Some (100000001 / 200000000))
   \<and> \<not> \<bar>100000001 / 200000000 - 1 / 10\<bar> < (1 / 10 ^ 4 :: real)"
  using unbracketed_at_tiny_yield early_exit_at_tiny_face
  by (simp add: pv_price_def pv_value_def)

section \<open>Properties of the recommendations service\<close>

subsection \<open>The risk scorer\<close>

lemmas risk_unfold =
  compute_portfolio_risk_def get_asset_risk_score_def RISK_MAP_def get_float_def Let_def


lemma risk_loop_eq:
  "risk_loop T as bd ws =
     (bd @ map (entry_of T) as,
      ws + sum_list (map (\<lambda>a. get_float (market_value a) / T * get_asset_risk_score a) as))"
  by (induction as arbitrary: bd ws) (simp_all add: Let_def entry_of_def)

lemma compute_portfolio_risk_eq:
  "compute_portfolio_risk assets =
     (let s = sum_list (map (\<lambda>a. get_float (market_value a)) assets);
          T = (if s \<noteq> 0 then s else 1)
      in (sum_list (map (\<lambda>a. get_float (market_value a) / T * get_asset_risk_score a) assets) * 100,
          map (entry_of T) assets, T))"
  by (simp add: compute_portfolio_risk_def risk_loop_eq Let_def)



lemma nonneg_sum_zero:
  assumes "\<forall>a \<in> set assets. 0 \<le> get_float (market_value a)"
    and "sum_list (map (\<lambda>a. get_float (market_value a)) assets) = 0"
  shows "\<forall>a \<in> set assets. get_float (market_value a) = 0"
  using assms
proof (induction assets)
  case Nil
  then show ?case by simp
next
  case (Cons a as)
  have m: "0 \<le> get_float (market_value a)" using Cons.prems(1) by simp
  have r: "0 \<le> sum_list (map (\<lambda>a. get_float (market_value a)) as)"
    using Cons.prems(1) by (intro sum_list_nonneg) auto
  have "get_float (market_value a) + sum_list (map (\<lambda>a. get_float (market_value a)) as) = 0"
    using Cons.prems(2) by simp
  with m r have "get_float (market_value a) = 0"
    and "sum_list (map (\<lambda>a. get_float (market_value a)) as) = 0"
    by linarith+
  with Cons show ?case by simp
qed





text \<open>
  C6 (as amended). For every asset list whose market values are non-negative and
  sum to 0 (the empty list included), \<open>compute_portfolio_risk\<close> returns the overall score
  0 and the total value 1, with one breakdown entry per asset, each having \<open>alloc_pct\<close> 0
  and \<open>risk_contribution\<close> 0. The function is total: no division raises, since
  \<open>total_value\<close> is never 0.
\<close>

theorem zero_portfolio:
  assumes "\<forall>a \<in> set assets. 0 \<le> get_float (market_value a)"
    and "sum_list (map (\<lambda>a. get_float (market_value a)) assets) = 0"
  shows "fst (compute_portfolio_risk assets) = 0
         \<and> snd (snd (compute_portfolio_risk assets)) = 1
         \<and> length (fst (snd (compute_portfolio_risk assets))) = length assets
         \<and> (\<forall>e \<in> set (fst (snd (compute_portfolio_risk assets))).
               alloc_pct e = 0 \<and> risk_contribution e = 0)"
proof -
  have z: "\<forall>a \<in> set assets. get_float (market_value a) = 0"
    using nonneg_sum_zero [OF assms] .
  then have w: "sum_list (map (\<lambda>a. get_float (market_value a) / 1 * get_asset_risk_score a) assets) = 0"
    by (induction assets) simp_all
  show ?thesis
    using assms(2) z w by (auto simp: compute_portfolio_risk_eq Let_def entry_of_def)
qed

theorem zero_portfolio_witness:
  "list_all (\<lambda>a. 0 \<le> get_float (market_value a)) idle_assets
   \<and> sum_list (map (\<lambda>a. get_float (market_value a)) idle_assets) = 0
   \<and> fst (compute_portfolio_risk idle_assets) = 0
   \<and> snd (snd (compute_portfolio_risk idle_assets)) = 1
   \<and> list_all (\<lambda>e. alloc_pct e = 0 \<and> risk_contribution e = 0)
        (fst (snd (compute_portfolio_risk idle_assets)))
   \<and> compute_portfolio_risk [] = (0, [], 1)"
proof -
  have h: "\<forall>a \<in> set idle_assets. 0 \<le> get_float (market_value a)"
    by (simp add: idle_assets_def get_float_def)
  have s: "sum_list (map (\<lambda>a. get_float (market_value a)) idle_assets) = 0"
    by (simp add: idle_assets_def get_float_def)
  have e: "compute_portfolio_risk [] = (0, [], 1)"
    by (simp add: compute_portfolio_risk_def)
  from zero_portfolio [OF h s] h s e show ?thesis
    by (simp add: list_all_iff)
qed

text \<open>
  Without non-negativity the sum alone does not decide the result: the market values
  \<open>5\<close> and \<open>-5\<close> sum to 0, the total value becomes 1, and the score is 475 with
  \<open>alloc_pct\<close> 5 and \<open>-5\<close>.
\<close>

theorem zero_sum_portfolio_counterexample:
  "sum_list (map (\<lambda>a. get_float (market_value a)) offsetting_assets) = 0
   \<and> compute_portfolio_risk offsetting_assets =
       (475,
        [\<lparr>e_asset_id = Some ''S_1'', e_type = Some ''stock'', e_market_value = 5,
          alloc_pct = 5, risk_score_raw = 1, risk_contribution = 5\<rparr>,
         \<lparr>e_asset_id = Some ''FD_2'', e_type = Some ''bank_fd'', e_market_value = - 5,
          alloc_pct = - 5, risk_score_raw = 1 / 20, risk_contribution = - (1 / 4)\<rparr>],
        1)"
  by (simp add: risk_unfold offsetting_assets_def)

subsection \<open>The bond selector\<close>


lemma sort_key_not_Nil: "xs \<noteq> [] \<Longrightarrow> sort_key f xs \<noteq> []"
  by (metis length_sort length_0_conv)

lemma hd_sort_key_min:
  fixes f :: "'a \<Rightarrow> real"
  assumes "xs \<noteq> []"
  shows "\<forall>x \<in> set xs. f (hd (sort_key f xs)) \<le> f x"
proof -
  have "sorted (map f (sort_key f xs))" by (rule sorted_sort_key)
  moreover have ne: "sort_key f xs \<noteq> []" using assms by (rule sort_key_not_Nil)
  ultimately have "\<forall>y \<in> set (sort_key f xs). f (hd (sort_key f xs)) \<le> f y"
    by (cases "sort_key f xs") auto
  then show ?thesis by simp
qed



lemma demo_safe_filter:
  "credit_filtered BOND_UNIVERSE ''safe'' = [BOND_UNIVERSE ! 0, BOND_UNIVERSE ! 1, BOND_UNIVERSE ! 4]"
  by (simp add: credit_filtered_def BOND_UNIVERSE_def Let_def)



lemma demo_fallback:
  "credit_filtered [BOND_UNIVERSE ! 3] ''safe'' = [BOND_UNIVERSE ! 3]"
  by (simp add: credit_filtered_def BOND_UNIVERSE_def Let_def)



subsection \<open>The reason assigned to a bank FD\<close>

lemma bank_fd_triggers:
  assumes "asset_type a = Some ''bank_fd''"
  shows "asset_triggers a U =
           bind_err (require_id a) (\<lambda>i. Inr [(i, get_float (market_value a), fd_reason a U)])"
proof -
  have "(filter (\<lambda>b. get_float (fd_rate a) \<le> yield b)
           (filter (\<lambda>b. credit b \<in> {''AAA'', ''AA''}) U) \<noteq> [])
        = (\<exists>b \<in> set U. credit b \<in> {''AAA'', ''AA''} \<and> get_float (fd_rate a) \<le> yield b)"
    by (auto simp: filter_empty_conv)
  then show ?thesis
    using assms
    by (cases "require_id a")
       (simp_all add: asset_triggers_def fd_reason_def bind_err_def Let_def)
qed

lemma identify_candidates_member:
  assumes "identify_candidates assets U = Inr to_replace" and "a \<in> set assets"
  shows "\<exists>es. asset_triggers a U = Inr es \<and> set es \<subseteq> set to_replace"
  using assms
proof (induction assets arbitrary: to_replace)
  case Nil
  then show ?case by simp
next
  case (Cons x rest)
  from Cons.prems(1) obtain es more where es: "asset_triggers x U = Inr es"
    and more: "identify_candidates rest U = Inr more" and tr: "to_replace = es @ more"
    by (auto simp: bind_err_Inr_iff)
  show ?case
  proof (cases "a = x")
    case True
    then show ?thesis using es tr by auto
  next
    case False
    then have "a \<in> set rest" using Cons.prems(2) by simp
    from Cons.IH [OF more this] show ?thesis using tr by auto
  qed
qed

lemma recommend_all_member:
  assumes "recommend_all assets U to_replace = Inr recs" and "e \<in> set to_replace"
  shows "\<exists>rs. recommend_one assets U e = Inr rs \<and> set rs \<subseteq> set recs"
  using assms
proof (induction to_replace arbitrary: recs)
  case Nil
  then show ?case by simp
next
  case (Cons x rest)
  from Cons.prems(1) obtain rs more where rs: "recommend_one assets U x = Inr rs"
    and more: "recommend_all assets U rest = Inr more" and tr: "recs = rs @ more"
    by (auto simp: bind_err_Inr_iff)
  show ?case
  proof (cases "e = x")
    case True
    then show ?thesis using rs tr by auto
  next
    case False
    then have "e \<in> set rest" using Cons.prems(2) by simp
    from Cons.IH [OF more this] show ?thesis using tr by auto
  qed
qed

lemma find_asset_present:
  assumes "a \<in> set assets" and "asset_id a = Some i" and "find_asset assets i = Inr found"
  shows "\<exists>x. found = Some x"
  using assms
proof (induction assets)
  case Nil
  then show ?case by simp
next
  case (Cons x rest)
  then show ?case by (cases "asset_id x") (auto split: if_splits)
qed

lemma recommend_one_fd:
  assumes "recommend_one assets U (i, v, rsn) = Inr rs"
    and "rsn = ''fd_replace'' \<or> rsn = ''fd_suggest_ladder''"
    and "a \<in> set assets" and "asset_id a = Some i"
  shows "\<exists>r. rs = [r] \<and> r_asset_id r = i \<and> replace_value r = v \<and> reason r = rsn"
proof -
  from assms(1) obtain found where f: "find_asset assets i = Inr found"
    by (auto simp: recommend_one_def bind_err_Inr_iff)
  from find_asset_present [OF assms(3,4) f] obtain x where x: "found = Some x" by blast
  show ?thesis
    using assms(1,2) f x
    by (auto simp: recommend_one_def bind_err_Inr_iff single_rec_def Let_def
             split: option.splits)
qed

text \<open>
  C5. Whenever \<open>build_recommendations\<close> returns, every asset of type \<open>bank_fd\<close> in
  the list has an identifier, the first loop appends for it exactly one entry, and a
  recommendation for that identifier carries the entry's value and reason. The reason is
  \<open>fd_replace\<close> if and only if some bond of the universe with credit \<open>AAA\<close> or \<open>AA\<close> has
  a yield of at least the asset's \<open>fd_rate\<close>, and \<open>fd_suggest_ladder\<close> if and only if none
  has. With the demo universe and \<open>fd_rate = 0.07\<close> the reason is \<open>fd_suggest_ladder\<close>.
\<close>

theorem bank_fd_reason:
  assumes "a \<in> set assets" and "asset_type a = Some ''bank_fd''"
    and "build_recommendations assets bond_universe = Inr recs"
  shows "\<exists>i. asset_id a = Some i
           \<and> asset_triggers a bond_universe
               = Inr [(i, get_float (market_value a), fd_reason a bond_universe)]
           \<and> (\<exists>r \<in> set recs. r_asset_id r = i
                 \<and> replace_value r = get_float (market_value a)
                 \<and> reason r = fd_reason a bond_universe)
           \<and> (fd_reason a bond_universe = ''fd_replace'' \<longleftrightarrow>
                (\<exists>b \<in> set bond_universe. credit b \<in> {''AAA'', ''AA''}
                    \<and> get_float (fd_rate a) \<le> yield b))
           \<and> (fd_reason a bond_universe = ''fd_suggest_ladder'' \<longleftrightarrow>
                \<not> (\<exists>b \<in> set bond_universe. credit b \<in> {''AAA'', ''AA''}
                    \<and> get_float (fd_rate a) \<le> yield b))
           \<and> (fd_rate a = Some (7 / 100) \<longrightarrow>
                fd_reason a BOND_UNIVERSE = ''fd_suggest_ladder'')"
proof -
  from assms(3) obtain to_replace where idc: "identify_candidates assets bond_universe = Inr to_replace"
    and all: "recommend_all assets bond_universe to_replace = Inr recs"
    by (auto simp: build_recommendations_def bind_err_Inr_iff)
  from identify_candidates_member [OF idc assms(1)] obtain es
    where es: "asset_triggers a bond_universe = Inr es" and sub: "set es \<subseteq> set to_replace"
    by blast
  let ?e = "\<lambda>i. (i, get_float (market_value a), fd_reason a bond_universe)"
  from es obtain i where i: "asset_id a = Some i" and es_eq: "es = [?e i]"
    by (cases "asset_id a")
       (auto simp: bank_fd_triggers [OF assms(2)] require_id_def bind_err_def)
  have mem: "?e i \<in> set to_replace" using sub es_eq by simp
  from recommend_all_member [OF all mem] obtain rs
    where rs: "recommend_one assets bond_universe (?e i) = Inr rs" and rsub: "set rs \<subseteq> set recs"
    by blast
  have which: "fd_reason a bond_universe = ''fd_replace''
                 \<or> fd_reason a bond_universe = ''fd_suggest_ladder''"
    by (simp add: fd_reason_def)
  from recommend_one_fd [OF rs which assms(1) i] obtain r where r: "rs = [r]"
    "r_asset_id r = i" "replace_value r = get_float (market_value a)"
    "reason r = fd_reason a bond_universe" by blast
  have rin: "r \<in> set recs" using rsub r(1) by simp
  have demo: "fd_rate a = Some (7 / 100) \<longrightarrow> fd_reason a BOND_UNIVERSE = ''fd_suggest_ladder''"
    by (simp add: fd_reason_def BOND_UNIVERSE_def get_float_def)
  have iff1: "fd_reason a bond_universe = ''fd_replace'' \<longleftrightarrow>
                (\<exists>b \<in> set bond_universe. credit b \<in> {''AAA'', ''AA''}
                    \<and> get_float (fd_rate a) \<le> yield b)"
    by (simp add: fd_reason_def)
  have iff2: "fd_reason a bond_universe = ''fd_suggest_ladder'' \<longleftrightarrow>
                \<not> (\<exists>b \<in> set bond_universe. credit b \<in> {''AAA'', ''AA''}
                    \<and> get_float (fd_rate a) \<le> yield b)"
    by (simp add: fd_reason_def)
  show ?thesis
    using i es es_eq rin r(2,3,4) demo iff1 iff2 by blast
qed

lemma demo_candidates:
  "identify_candidates demo_portfolio BOND_UNIVERSE =
     Inr [(''S_HIGH'', 40000, ''stock_high''), (''MF_LOW'', 5000, ''mf_lowcagr''),
          (''FD_1'', 20000, ''fd_suggest_ladder'')]"
  by (simp add: demo_portfolio_def BOND_UNIVERSE_def asset_triggers_def require_id_def
        bind_err_def get_float_def Let_def)

lemma demo_recommendations:
  "build_recommendations demo_portfolio BOND_UNIVERSE =
     Inr [\<lparr>r_asset_id = ''S_HIGH'', r_asset_name = Some ''AlphaTech'',
            replace_value = 40000, reason = ''stock_high'',
            recommended_bond = ''B_HY_1'', r_bond_name = ''HighYield 4Y'',
            bond_yield = YieldNumber (1 / 10), bond_credit = ''BB''\<rparr>,
          \<lparr>r_asset_id = ''MF_LOW'', r_asset_name = Some ''ValueCore MF'',
            replace_value = 5000, reason = ''mf_lowcagr'',
            recommended_bond = ''B_SAFE_2'', r_bond_name = ''InvGrade Corp 3Y'',
            bond_yield = YieldNumber (3 / 50), bond_credit = ''AA''\<rparr>,
          \<lparr>r_asset_id = ''FD_1'', r_asset_name = Some ''BankFD (7% p.a.)'',
            replace_value = 20000, reason = ''fd_suggest_ladder'',
            recommended_bond = ''B_SHORT_SAFE (50%) + B_SAFE_2 (50%)'',
            r_bond_name = ''T-Bill 1Y + InvGrade Corp 3Y'',
            bond_yield = YieldPair (9 / 200) (3 / 50), bond_credit = ''AAA & AA''\<rparr>]"
  unfolding build_recommendations_def demo_candidates
  by (simp add: demo_portfolio_def BOND_UNIVERSE_def recommend_one_def single_rec_def
        select_bond_candidate_def credit_filtered_def utility_def CREDIT_RISK_MAP_def
        bind_err_def Let_def py_round_def round_half_even_def)

theorem bank_fd_reason_witness:
  "last demo_portfolio \<in> set demo_portfolio
   \<and> asset_type (last demo_portfolio) = Some ''bank_fd''
   \<and> (\<exists>recs. build_recommendations demo_portfolio BOND_UNIVERSE = Inr recs
         \<and> (\<exists>r \<in> set recs. r_asset_id r = ''FD_1'' \<and> replace_value r = 20000
               \<and> reason r = ''fd_suggest_ladder''))
   \<and> asset_triggers (last demo_portfolio) BOND_UNIVERSE
       = Inr [(''FD_1'', 20000, ''fd_suggest_ladder'')]
   \<and> fd_reason (last demo_portfolio) BOND_UNIVERSE = ''fd_suggest_ladder''"
proof -
  let ?fd = "last demo_portfolio"
  let ?recs = "projr (build_recommendations demo_portfolio BOND_UNIVERSE)"
  have a: "?fd \<in> set demo_portfolio" by (simp add: demo_portfolio_def)
  have b: "asset_type ?fd = Some ''bank_fd''" by (simp add: demo_portfolio_def)
  have c: "fd_rate ?fd = Some (7 / 100)" by (simp add: demo_portfolio_def)
  have d: "asset_id ?fd = Some ''FD_1''" by (simp add: demo_portfolio_def)
  have e: "get_float (market_value ?fd) = 20000"
    by (simp add: demo_portfolio_def get_float_def)
  have run: "build_recommendations demo_portfolio BOND_UNIVERSE = Inr ?recs"
    by (simp only: demo_recommendations sum.sel)
  from bank_fd_reason [OF a b run] obtain i where i: "asset_id ?fd = Some i"
    and tr: "asset_triggers ?fd BOND_UNIVERSE
               = Inr [(i, get_float (market_value ?fd), fd_reason ?fd BOND_UNIVERSE)]"
    and r: "\<exists>r \<in> set ?recs. r_asset_id r = i
               \<and> replace_value r = get_float (market_value ?fd)
               \<and> reason r = fd_reason ?fd BOND_UNIVERSE"
    and l: "fd_rate ?fd = Some (7 / 100) \<longrightarrow>
              fd_reason ?fd BOND_UNIVERSE = ''fd_suggest_ladder''"
    by blast
  have i_eq: "i = ''FD_1''" using i d by simp
  have rsn: "fd_reason ?fd BOND_UNIVERSE = ''fd_suggest_ladder''" using l c by blast
  have r': "\<exists>r \<in> set ?recs. r_asset_id r = ''FD_1'' \<and> replace_value r = 20000
               \<and> reason r = ''fd_suggest_ladder''"
    using r by (simp only: i_eq e rsn)
  have tr': "asset_triggers ?fd BOND_UNIVERSE
               = Inr [(''FD_1'', 20000, ''fd_suggest_ladder'')]"
    using tr by (simp only: i_eq e rsn)
  show ?thesis using a b run r' tr' rsn by blast
qed

end
